theory Spec2Isabelle
  imports Complex_Main
begin

section \<open>Numbers, strings and arrays of the source language\<close>

text \<open>
  The JavaScript numbers of the program (times in seconds, importance scores, durations)
  are modelled as exact rationals; \<open>NaN\<close> and the infinities are outside the model, and so
  is the rounding of binary floating point. An optional property of an object (one that
  may be \<open>undefined\<close>) is an \<open>option\<close>.
\<close>

definition num_or :: "rat option \<Rightarrow> rat \<Rightarrow> rat" where
  \<comment> \<open>\<open>x || y\<close> on a number \<open>x\<close> that may be undefined: undefined and 0 are falsy.\<close>
  "num_or x y = (case x of None \<Rightarrow> y | Some v \<Rightarrow> if v \<noteq> 0 then v else y)"

text \<open>
  \<open>Array.prototype.sort(cmp)\<close> is a stable sort: an element \<open>a\<close> stays before \<open>b\<close> unless
  \<open>cmp(a, b) > 0\<close>. \<open>sort_by\<close> is the stable insertion sort with the comparator of the call.
\<close>

definition to_integer :: "rat \<Rightarrow> int" where
  \<comment> \<open>the conversion of a number to an integer that \<open>slice\<close> applies: truncation
      towards 0\<close>
  "to_integer x = (if x \<ge> 0 then \<lfloor>x\<rfloor> else \<lceil>x\<rceil>)"

definition slice0 :: "'a list \<Rightarrow> rat \<Rightarrow> 'a list" where
  \<comment> \<open>\<open>xs.slice(0, n)\<close>: the first \<open>n\<close> elements; a negative \<open>n\<close> counts from the end of
      the array.\<close>
  "slice0 xs n =
     (let k = to_integer n in
      if k < 0 then take (nat (int (length xs) + k)) xs else take (nat k) xs)"

fun insert_by :: "('a \<Rightarrow> 'a \<Rightarrow> rat) \<Rightarrow> 'a \<Rightarrow> 'a list \<Rightarrow> 'a list" where
  "insert_by cmp x [] = [x]"
| "insert_by cmp x (y # ys) =
     (if cmp x y \<le> 0 then x # y # ys else y # insert_by cmp x ys)"

definition sort_by :: "('a \<Rightarrow> 'a \<Rightarrow> rat) \<Rightarrow> 'a list \<Rightarrow> 'a list" where
  "sort_by cmp xs = foldr (insert_by cmp) xs []"

section \<open>Moments and the filter engine (videoSummarizer.js)\<close>

record moment =
  title :: string
  description :: string
  startTime :: rat
  endTime :: rat
  importance :: rat
  category :: string
  reason :: string
  workflowContext :: string

text \<open>
  The filtering options of \<open>filterMoments\<close>, as they arrive in the request body:
  \<open>maxMoments\<close> is any number, like \<open>minImportance\<close> and \<open>maxMomentDuration\<close>.
\<close>

record filter_options =
  minImportance :: "rat option"
  includeCategories :: "string list option"
  maxMomentDuration :: "rat option"
  maxMoments :: "rat option"
  sortMomentsBy :: "string option"

definition by_importance_desc :: "moment \<Rightarrow> moment \<Rightarrow> rat" where
  \<comment> \<open>\<open>(a, b) => b.importance - a.importance\<close>\<close>
  "by_importance_desc a b = importance b - importance a"

definition by_duration_desc :: "moment \<Rightarrow> moment \<Rightarrow> rat" where
  \<comment> \<open>\<open>(a, b) => (b.endTime - b.startTime) - (a.endTime - a.startTime)\<close>\<close>
  "by_duration_desc a b = (endTime b - startTime b) - (endTime a - startTime a)"

definition by_start_asc :: "moment \<Rightarrow> moment \<Rightarrow> rat" where
  \<comment> \<open>\<open>(a, b) => a.startTime - b.startTime\<close>\<close>
  "by_start_asc a b = startTime a - startTime b"

definition filter_min_importance :: "filter_options \<Rightarrow> moment list \<Rightarrow> moment list" where
  "filter_min_importance options filtered =
     (case minImportance options of
        Some mi \<Rightarrow> if mi \<noteq> 0 then filter (\<lambda>m. importance m \<ge> mi) filtered else filtered
      | None \<Rightarrow> filtered)"

definition filter_categories :: "filter_options \<Rightarrow> moment list \<Rightarrow> moment list" where
  "filter_categories options filtered =
     (case includeCategories options of
        Some cs \<Rightarrow> if length cs > 0 then filter (\<lambda>m. category m \<in> set cs) filtered
                   else filtered
      | None \<Rightarrow> filtered)"

definition filter_max_duration :: "filter_options \<Rightarrow> moment list \<Rightarrow> moment list" where
  "filter_max_duration options filtered =
     (case maxMomentDuration options of
        Some md \<Rightarrow> if md \<noteq> 0 then filter (\<lambda>m. endTime m - startTime m \<le> md) filtered
                   else filtered
      | None \<Rightarrow> filtered)"

definition limit_moments :: "filter_options \<Rightarrow> moment list \<Rightarrow> moment list" where
  \<comment> \<open>\<open>if (options.maxMoments && filtered.length > options.maxMoments)\<close>: sort by
      importance and \<open>slice(0, maxMoments)\<close>.\<close>
  "limit_moments options filtered =
     (case maxMoments options of
        Some n \<Rightarrow> if n \<noteq> 0 \<and> of_nat (length filtered) > n
                  then slice0 (sort_by by_importance_desc filtered) n else filtered
      | None \<Rightarrow> filtered)"

definition sortBy :: "filter_options \<Rightarrow> string" where
  \<comment> \<open>\<open>options.sortMomentsBy || 'chronological'\<close>\<close>
  "sortBy options =
     (case sortMomentsBy options of
        Some s \<Rightarrow> if s \<noteq> [] then s else ''chronological''
      | None \<Rightarrow> ''chronological'')"

definition final_sort :: "filter_options \<Rightarrow> moment list \<Rightarrow> moment list" where
  "final_sort options filtered =
     (if sortBy options = ''importance'' then sort_by by_importance_desc filtered
      else if sortBy options = ''duration'' then sort_by by_duration_desc filtered
      else sort_by by_start_asc filtered)"

definition filterMoments :: "moment list \<Rightarrow> filter_options \<Rightarrow> moment list" where
  "filterMoments moments options =
     final_sort options
       (limit_moments options
          (filter_max_duration options
             (filter_categories options
                (filter_min_importance options moments))))"

text \<open>The sort key that each comparator of the final ordering compares.\<close>

definition final_key :: "filter_options \<Rightarrow> moment \<Rightarrow> rat" where
  "final_key options m =
     (if sortBy options = ''importance'' then - importance m
      else if sortBy options = ''duration'' then - (endTime m - startTime m)
      else startTime m)"

subsection \<open>Concrete inputs\<close>

definition example_moment :: "rat \<Rightarrow> rat \<Rightarrow> rat \<Rightarrow> moment" where
  "example_moment imp s e =
     \<lparr>title = ''Moment'', description = ''Example'', startTime = s, endTime = e,
      importance = imp, category = ''workflow_phase'', reason = ''r'',
      workflowContext = ''w''\<rparr>"

definition example_options :: filter_options where
  "example_options =
     \<lparr>minImportance = Some 5, includeCategories = None, maxMomentDuration = None,
      maxMoments = Some 3, sortMomentsBy = Some ''importance''\<rparr>"

definition zero_limit_options :: filter_options where
  "zero_limit_options =
     \<lparr>minImportance = None, includeCategories = None, maxMomentDuration = None,
      maxMoments = Some 0, sortMomentsBy = None\<rparr>"

definition scenario_moments :: "moment list" where
  "scenario_moments =
     [example_moment 9 0 5, example_moment 3 10 15, example_moment 7 20 25,
      example_moment 8 30 35, example_moment 2 40 45, example_moment 6 50 55,
      example_moment 5 60 65, example_moment 4 70 75]"

definition negative_limit_options :: filter_options where
  "negative_limit_options =
     \<lparr>minImportance = None, includeCategories = None, maxMomentDuration = None,
      maxMoments = Some (- 1), sortMomentsBy = None\<rparr>"

definition zero_importance_options :: filter_options where
  "zero_importance_options =
     \<lparr>minImportance = Some 0, includeCategories = None, maxMomentDuration = None,
      maxMoments = None, sortMomentsBy = None\<rparr>"

definition category_options :: filter_options where
  "category_options =
     \<lparr>minImportance = None, includeCategories = Some [''decision''],
      maxMomentDuration = None, maxMoments = None, sortMomentsBy = Some ''duration''\<rparr>"

definition decision_moment :: "rat \<Rightarrow> rat \<Rightarrow> rat \<Rightarrow> moment" where
  "decision_moment imp s e = (example_moment imp s e)\<lparr>category := ''decision''\<rparr>"

section \<open>Moment detection: response parsing and fallback (MomentAnalyzer)\<close>

subsection \<open>Strings\<close>

definition toLowerCase :: "string \<Rightarrow> string" where
  \<comment> \<open>\<open>String.prototype.toLowerCase\<close> on ASCII text.\<close>
  "toLowerCase s =
     map (\<lambda>c. case map_of (zip ''ABCDEFGHIJKLMNOPQRSTUVWXYZ'' ''abcdefghijklmnopqrstuvwxyz'') c of
                 Some l \<Rightarrow> l | None \<Rightarrow> c) s"

fun str_includes :: "string \<Rightarrow> string \<Rightarrow> bool" where
  \<comment> \<open>\<open>s.includes(sub)\<close>: \<open>sub\<close> occurs in \<open>s\<close> as a contiguous substring.\<close>
  "str_includes [] sub = (sub = [])"
| "str_includes (c # cs) sub = (take (length sub) (c # cs) = sub \<or> str_includes cs sub)"

fun join :: "string \<Rightarrow> string list \<Rightarrow> string" where
  \<comment> \<open>\<open>parts.join(sep)\<close>\<close>
  "join sep [] = []"
| "join sep [x] = x"
| "join sep (x # y # ys) = x @ sep @ join sep (y # ys)"

definition Math_round :: "rat \<Rightarrow> int" where
  \<comment> \<open>\<open>Math.round\<close>: the nearest integer, a tie going up.\<close>
  "Math_round x = \<lfloor>x + 1 / 2\<rfloor>"

definition Math_floor :: "rat \<Rightarrow> rat" where
  "Math_floor x = of_int \<lfloor>x\<rfloor>"

subsection \<open>Transcriptions and analyses\<close>

text \<open>
  A transcript segment \<open>{start, end, text}\<close> and the transcription object the analyzer
  receives. The analyzer reads \<open>segments\<close>, \<open>duration\<close> and \<open>totalDuration\<close>, each of which
  may be missing.
\<close>

record segment =
  seg_start :: rat
  seg_end :: rat
  seg_text :: string

record transcription =
  tr_text :: "string option"
  segments :: "segment list option"
  duration :: "rat option"
  totalDuration :: "rat option"

text \<open>
  The analysis object: what the detector's JSON holds and what \<open>parseGeminiResponse\<close>
  adds to it. The descriptive texts (\<open>summary\<close>, \<open>recommendedApproach\<close>, \<open>contentType\<close>,
  \<open>workflowPhases\<close>) carry no logic and are left out.
\<close>

record analysis =
  keyMoments :: "moment list option"
  totalOriginalDuration :: "rat option"
  recommendedSummaryDuration :: "int option"
  compressionRatio :: "int option"
  momentCount :: "nat option"

record analysis_result =
  success :: bool
  analysis :: analysis
  provider :: string

subsection \<open>The heuristic fallback\<close>

definition topicIndicators :: "string list" where
  "topicIndicators =
     [''look at'', ''we can see'', ''going to look'', ''can also look'',
      ''check'', ''checking'', ''review'', ''reviewing'',
      ''move to'', ''moving to'', ''switch to'', ''go to'',
      ''here we have'', ''this shows'', ''you can see'',
      ''another'', ''also'', ''next'', ''now'']"

definition generateMomentTitle :: "segment list \<Rightarrow> rat \<Rightarrow> rat \<Rightarrow> string" where
  "generateMomentTitle segs startT endT =
     (let relevantSegments = filter (\<lambda>s. seg_start s \<ge> startT \<and> seg_end s \<le> endT) segs in
      if length relevantSegments = 0 then ''Workflow Segment''
      else
        let txt = toLowerCase (join '' '' (map seg_text relevantSegments)) in
        if str_includes txt ''fantasy'' \<and> str_includes txt ''football'' then ''Fantasy Football Review''
        else if str_includes txt ''email'' then ''Email Check''
        else if str_includes txt ''trade'' then ''Trade Decision''
        else if str_includes txt ''bench'' then ''Bench Analysis''
        else if str_includes txt ''team'' then ''Team Performance''
        else if str_includes txt ''class'' \<or> str_includes txt ''plan'' then ''Class Planning''
        else if str_includes txt ''game'' then ''Game Results''
        else if str_includes txt ''points'' then ''Score Review''
        else ''Workflow Activity'')"

text \<open>
  The state of the loop over the segments: the moments pushed so far,
  \<open>currentMomentStart\<close> and \<open>lastMomentEnd\<close>.
\<close>

type_synonym fallback_state = "moment list \<times> rat \<times> rat"

definition hasTopicIndicator :: "segment \<Rightarrow> bool" where
  "hasTopicIndicator s =
     list_ex (\<lambda>indicator. str_includes (toLowerCase (seg_text s)) indicator) topicIndicators"

definition fallback_step :: "segment list \<Rightarrow> rat \<Rightarrow> fallback_state \<Rightarrow> segment \<Rightarrow> fallback_state" where
  "fallback_step segs dur st s =
     (case st of (moments, currentMomentStart, lastMomentEnd) \<Rightarrow>
        if (hasTopicIndicator s \<or> seg_start s - lastMomentEnd > 15)
           \<and> lastMomentEnd < seg_start s - 5
        then
          let ttl = generateMomentTitle segs (Math_floor currentMomentStart)
                      (Math_floor (seg_start s)) in
          (moments @
             [\<lparr>title = ttl,
               description = ''Workflow segment: '' @ toLowerCase ttl,
               startTime = max 0 currentMomentStart,
               endTime = min dur (seg_start s),
               importance = 6,
               category = ''workflow_phase'',
               reason = ''Natural workflow transition point identified'',
               workflowContext = ''Part of continuous user workflow''\<rparr>],
           seg_start s, seg_start s)
        else st)"

definition final_moment :: "segment list \<Rightarrow> rat \<Rightarrow> rat \<Rightarrow> moment" where
  "final_moment segs dur currentMomentStart =
     (let ttl = generateMomentTitle segs (Math_floor currentMomentStart) (Math_floor dur) in
      \<lparr>title = ttl,
       description = ''Final workflow segment: '' @ toLowerCase ttl,
       startTime = currentMomentStart,
       endTime = dur,
       importance = 6,
       category = ''workflow_phase'',
       reason = ''Final workflow segment'',
       workflowContext = ''Conclusion of user workflow''\<rparr>)"

definition phase_number :: "nat \<Rightarrow> string" where
  \<comment> \<open>the text of \<open>i + 1\<close> for the loop index \<open>i\<close> of the three-way split\<close>
  "phase_number i = (if i = 0 then ''1'' else if i = 1 then ''2'' else ''3'')"

definition equal_split_moment :: "segment list \<Rightarrow> rat \<Rightarrow> nat \<Rightarrow> moment" where
  "equal_split_moment segs dur i =
     (let segmentLength = dur / 3;
          start = of_nat i * segmentLength;
          end' = min ((of_nat i + 1) * segmentLength) dur;
          ttl = generateMomentTitle segs (Math_floor start) (Math_floor end') in
      \<lparr>title = ttl,
       description = ''Workflow phase '' @ phase_number i @ '': '' @ toLowerCase ttl,
       startTime = start,
       endTime = end',
       importance = 5 + of_nat i,
       category = ''workflow_phase'',
       reason = ''Temporal workflow division'',
       workflowContext = ''Phase '' @ phase_number i @ '' of user workflow''\<rparr>)"

definition fallback_moments :: "transcription \<Rightarrow> moment list" where
  "fallback_moments t =
     (let segs = (case segments t of Some ss \<Rightarrow> ss | None \<Rightarrow> []);
          dur = num_or (duration t) 0;
          st = foldl (fallback_step segs dur) ([], 0, 0) segs;
          moments = fst st;
          currentMomentStart = fst (snd st);
          moments = (if currentMomentStart < dur - 10
                     then moments @ [final_moment segs dur currentMomentStart] else moments)
      in if length moments < 3 \<and> dur > 60
         then map (equal_split_moment segs dur) [0, 1, 2]
         else moments)"

definition createLiberalFallback :: "transcription \<Rightarrow> analysis_result" where
  "createLiberalFallback t =
     \<lparr>success = True,
      analysis = \<lparr>keyMoments = Some (fallback_moments t),
                  totalOriginalDuration =
                    Some (num_or (duration t) 0),
                  recommendedSummaryDuration = None,
                  compressionRatio = None,
                  momentCount = None\<rparr>,
      provider = ''liberal-fallback''\<rparr>"

text \<open>
  The server hands the analyzer the processed transcription, the object that
  \<open>processTranscriptionForAnalysis\<close> builds: it has \<open>fullText\<close>, \<open>timestampedSegments\<close> and
  \<open>totalDuration\<close> where the raw transcription has \<open>text\<close>, \<open>segments\<close> and \<open>duration\<close>.
\<close>

definition processTranscriptionForAnalysis :: "transcription \<Rightarrow> transcription" where
  "processTranscriptionForAnalysis t =
     \<lparr>tr_text = None, segments = None, duration = None, totalDuration = duration t\<rparr>"

subsection \<open>Parsing the detector's response\<close>

definition extract_json :: "string \<Rightarrow> string option" where
  \<comment> \<open>\<open>responseText.match(/\{[\s\S]*\}/)\<close>: from the first opening brace to the last
      closing brace after it.\<close>
  "extract_json responseText =
     (let from_brace = dropWhile (\<lambda>c. c \<noteq> CHR ''{'') responseText;
          matched = rev (dropWhile (\<lambda>c. c \<noteq> CHR ''}'') (rev from_brace))
      in if matched = [] then None else Some matched)"

definition videoDuration :: "transcription \<Rightarrow> analysis \<Rightarrow> rat" where
  \<comment> \<open>\<open>transcription.duration || transcription.totalDuration ||
      analysis.totalOriginalDuration || 300\<close>\<close>
  "videoDuration t a =
     num_or (duration t) (num_or (totalDuration t) (num_or (totalOriginalDuration a) 300))"

definition validate_moment :: "rat \<Rightarrow> moment \<Rightarrow> bool \<times> moment" where
  \<comment> \<open>The callback of the \<open>keyMoments\<close> filter: it rewrites the moment's times in place
      and returns whether the moment stays.\<close>
  "validate_moment vd m =
     (let m1 = (if startTime m < 10 \<and> startTime m > 1
                then m\<lparr>startTime := startTime m * 60\<rparr> else m);
          m2 = (if endTime m1 < 10 \<and> endTime m1 > 1
                then m1\<lparr>endTime := endTime m1 * 60\<rparr> else m1);
          isValid = (startTime m2 \<ge> 0 \<and> endTime m2 \<le> vd \<and> startTime m2 < endTime m2)
      in (isValid, m2))"

definition validated_moments :: "rat \<Rightarrow> moment list \<Rightarrow> moment list" where
  "validated_moments vd ms = map snd (filter fst (map (validate_moment vd) ms))"

definition parseGeminiResponse ::
  "(string \<Rightarrow> analysis option) \<Rightarrow> string \<Rightarrow> transcription \<Rightarrow> analysis_result" where
  \<comment> \<open>\<open>JSON_parse\<close> stands for \<open>JSON.parse\<close>: \<open>None\<close> when it throws. Every throw inside
      the \<open>try\<close> block ends in the \<open>catch\<close>, which returns the fallback.\<close>
  "parseGeminiResponse JSON_parse responseText t =
     (case extract_json responseText of
        None \<Rightarrow> createLiberalFallback t
      | Some jsonMatch \<Rightarrow>
          (case JSON_parse jsonMatch of
             None \<Rightarrow> createLiberalFallback t
           | Some a \<Rightarrow>
               (case keyMoments a of
                  None \<Rightarrow> createLiberalFallback t
                | Some ms \<Rightarrow>
                    if length ms = 0 then createLiberalFallback t
                    else
                      let kept = validated_moments (videoDuration t a) ms;
                          totalMomentDuration =
                            foldl (\<lambda>sum m. sum + (endTime m - startTime m)) 0 kept
                      in \<lparr>success = True,
                          analysis = a\<lparr>keyMoments := Some kept,
                            recommendedSummaryDuration := Some (Math_round totalMomentDuration),
                            compressionRatio :=
                              Some (case duration t of
                                      Some d \<Rightarrow>
                                        if d \<noteq> 0 then Math_round (totalMomentDuration / d * 100)
                                        else 0
                                    | None \<Rightarrow> 0),
                            momentCount := Some (length kept)\<rparr>,
                          provider = ''gemini-1.5-pro''\<rparr>)))"

section \<open>Input validation of the summarizer (videoSummarizer.js)\<close>

text \<open>
  A moment as \<open>createVideoSummary\<close> receives it, read back from the job log or sent by a
  caller: its two times may be missing.
\<close>

record moment_in =
  in_title :: string
  in_startTime :: "rat option"
  in_endTime :: "rat option"
  in_importance :: rat

datatype summarizer_error =
    VideoFileNotFound string
  | NoMomentsProvided
  | InvalidMomentTiming moment_in
  | StepFailed string
  | SummarizationFailed summarizer_error

definition falsy_time :: "rat option \<Rightarrow> bool" where
  \<comment> \<open>\<open>!moment.startTime\<close>: true for a missing time and for 0.\<close>
  "falsy_time x = (case x of None \<Rightarrow> True | Some v \<Rightarrow> v = 0)"

definition invalid_timing :: "moment_in \<Rightarrow> bool" where
  \<comment> \<open>\<open>!moment.startTime || !moment.endTime || moment.startTime >= moment.endTime\<close>\<close>
  "invalid_timing m =
     (falsy_time (in_startTime m) \<or> falsy_time (in_endTime m) \<or>
      (case (in_startTime m, in_endTime m) of
         (Some s, Some e) \<Rightarrow> s \<ge> e
       | _ \<Rightarrow> False))"

fun check_moments :: "moment_in list \<Rightarrow> summarizer_error + unit" where
  \<comment> \<open>the \<open>for\<close> loop of \<open>validateInputs\<close>: it throws at the first invalid moment\<close>
  "check_moments [] = Inr ()"
| "check_moments (m # ms) =
     (if invalid_timing m then Inl (InvalidMomentTiming m) else check_moments ms)"

definition validateInputs :: "string list \<Rightarrow> string \<Rightarrow> moment_in list \<Rightarrow> summarizer_error + unit" where
  \<comment> \<open>\<open>files\<close> are the paths for which \<open>fs.existsSync\<close> holds.\<close>
  "validateInputs files videoPath moments =
     (if videoPath = [] \<or> videoPath \<notin> set files then Inl (VideoFileNotFound videoPath)
      else if length moments = 0 then Inl NoMomentsProvided
      else check_moments moments)"

text \<open>
  \<open>createVideoSummary\<close>: validation first; \<open>steps\<close> is the outcome of everything after it
  (filtering, clip extraction, composition by the media tool), an error message or the
  summary. Whatever is thrown is rethrown as "Summarization failed: ...".
\<close>

type_synonym summary = string

definition createVideoSummary ::
  "string list \<Rightarrow> string + summary \<Rightarrow> string \<Rightarrow> moment_in list \<Rightarrow> summarizer_error + summary" where
  "createVideoSummary files steps videoPath moments =
     (case validateInputs files videoPath moments of
        Inl e \<Rightarrow> Inl (SummarizationFailed e)
      | Inr _ \<Rightarrow>
          (case steps of
             Inl msg \<Rightarrow> Inl (SummarizationFailed (StepFailed msg))
           | Inr s \<Rightarrow> Inr s))"

definition createQuickSummary ::
  "string list \<Rightarrow> string + summary \<Rightarrow> string \<Rightarrow> moment_in list \<Rightarrow> summarizer_error + summary" where
  \<comment> \<open>\<open>createVideoSummary\<close> with the fixed quick options\<close>
  "createQuickSummary files steps videoPath moments =
     createVideoSummary files steps videoPath moments"

section \<open>The job log and the pipeline stages (server routes)\<close>

text \<open>
  An event of the log: \<open>{timestamp, jobId, activity, details}\<close>; no stage reads the
  timestamp, which is left out. \<open>details\<close> is an object whose properties depend on the
  activity; the record has the properties that the stages write and read, each optional.
\<close>

datatype failure = Message string | Summarizer summarizer_error | PathTypeError

record details =
  audioFile :: "string option"
  audioPath :: "string option"
  processingFile :: "string option"
  d_transcription :: "transcription option"
  d_keyMoments :: "moment_in list option"
  momentsCount :: "nat option"
  d_result :: "summary option"
  d_summary :: "summary option"
  d_error :: "failure option"

record event =
  jobId :: string
  activity :: string
  details :: details

definition no_details :: details where
  "no_details =
     \<lparr>audioFile = None, audioPath = None, processingFile = None,
      d_transcription = None, d_keyMoments = None, momentsCount = None, d_result = None,
      d_summary = None,
      d_error = None\<rparr>"

definition logActivity :: "event list \<Rightarrow> string \<Rightarrow> string \<Rightarrow> details \<Rightarrow> event list" where
  \<comment> \<open>appends one line to the day's log file\<close>
  "logActivity lg j a d = lg @ [\<lparr>jobId = j, activity = a, details = d\<rparr>]"

definition getJobLogs :: "event list \<Rightarrow> string \<Rightarrow> event list" where
  "getJobLogs lg j = filter (\<lambda>l. jobId l = j) lg"

definition find_activity :: "event list \<Rightarrow> string \<Rightarrow> event option" where
  \<comment> \<open>\<open>logs.find(log => log.activity === a)\<close>\<close>
  "find_activity logs a = find (\<lambda>l. activity l = a) logs"

definition path_join :: "string \<Rightarrow> string \<Rightarrow> string" where
  "path_join dir name = dir @ ''/'' @ name"

datatype response = Json string | Error nat string

subsection \<open>The prerequisite each stage resolves\<close>

definition transcribe_input :: "event list \<Rightarrow> string \<Rightarrow> event option" where
  "transcribe_input lg j = find_activity (getJobLogs lg j) ''audio_extraction_completed''"

definition analyze_inputs :: "event list \<Rightarrow> string \<Rightarrow> event option \<times> event option \<times> event option" where
  \<comment> \<open>\<open>transcriptionLog\<close>, \<open>audioLog\<close>, \<open>processingLog\<close>\<close>
  "analyze_inputs lg j =
     (let logs = getJobLogs lg j in
      (find_activity logs ''transcription_completed'',
       find_activity logs ''audio_extraction_completed'',
       find_activity logs ''processing_started''))"

definition summary_inputs :: "event list \<Rightarrow> string \<Rightarrow> event option \<times> event option" where
  \<comment> \<open>\<open>momentLog\<close>, \<open>processingLog\<close> of create-summary and quick-summary\<close>
  "summary_inputs lg j =
     (let logs = getJobLogs lg j in
      (find_activity logs ''moment_analysis_completed'',
       find_activity logs ''processing_started''))"

definition is_summary_event :: "event \<Rightarrow> bool" where
  "is_summary_event l =
     (activity l = ''video_summarization_completed'' \<or>
      activity l = ''quick_summary_completed'' \<or>
      activity l = ''full_pipeline_completed'')"

definition get_summary_input :: "event list \<Rightarrow> string \<Rightarrow> event option" where
  "get_summary_input lg j = find is_summary_event (getJobLogs lg j)"

subsection \<open>The stages\<close>

text \<open>
  A stage takes the files that exist, the outcome of its external collaborator (an error
  message or the result), the log and the job identifier, and returns its response and
  the log it leaves.
\<close>

definition transcribe ::
  "string list \<Rightarrow> string + transcription \<Rightarrow> event list \<Rightarrow> string \<Rightarrow> response \<times> event list" where
  "transcribe files outcome lg j =
     (case transcribe_input lg j of
        None \<Rightarrow> (Error 404 ''Audio extraction job not found'', lg)
      | Some audioLog \<Rightarrow>
          (case audioFile (details audioLog) of
             None \<Rightarrow> (Error 404 ''Audio file not found'', lg)
           | Some f \<Rightarrow>
               if f = [] \<or> path_join ''temp'' f \<notin> set files
               then (Error 404 ''Audio file not found'', lg)
               else
                 let log1 = logActivity lg j ''transcription_started''
                              (no_details\<lparr>audioPath := Some (path_join ''temp'' f)\<rparr>) in
                 (case outcome of
                    Inr t \<Rightarrow>
                      (Json ''Transcription completed successfully'',
                       logActivity log1 j ''transcription_completed''
                         (no_details\<lparr>d_transcription :=
                            Some (processTranscriptionForAnalysis t)\<rparr>))
                  | Inl msg \<Rightarrow>
                      (Error 500 ''Transcription failed'',
                       logActivity log1 j ''transcription_failed''
                         (no_details\<lparr>d_error := Some (Message msg)\<rparr>)))))"

definition create_summary ::
  "string list \<Rightarrow> string + summary \<Rightarrow> event list \<Rightarrow> string \<Rightarrow> response \<times> event list" where
  "create_summary files steps lg j =
     (case summary_inputs lg j of
        (Some momentLog, Some processingLog) \<Rightarrow>
          (case processingFile (details processingLog) of
             None \<Rightarrow>
               (Error 500 ''Video summarization failed'',
                logActivity lg j ''video_summarization_failed''
                  (no_details\<lparr>d_error := Some PathTypeError\<rparr>))
           | Some pf \<Rightarrow>
               let vp = path_join ''temp'' pf;
                   moments = (case d_keyMoments (details momentLog) of
                                Some ms \<Rightarrow> ms | None \<Rightarrow> [])
               in if vp \<notin> set files then (Error 404 ''Original video file not found'', lg)
                  else if length moments = 0
                  then (Error 400 ''No moments available for summarization'', lg)
                  else
                    let log1 = logActivity lg j ''video_summarization_started''
                                 (no_details\<lparr>momentsCount := Some (length moments)\<rparr>) in
                    (case createVideoSummary files steps vp moments of
                       Inr s \<Rightarrow>
                         (Json ''Video summary created successfully'',
                          logActivity log1 j ''video_summarization_completed''
                            (no_details\<lparr>d_result := Some s\<rparr>))
                     | Inl e \<Rightarrow>
                         (Error 500 ''Video summarization failed'',
                          logActivity log1 j ''video_summarization_failed''
                            (no_details\<lparr>d_error := Some (Summarizer e)\<rparr>))))
      | _ \<Rightarrow> (Error 404 ''Moment analysis or original video not found for this job'', lg))"

definition quick_summary ::
  "string list \<Rightarrow> string + summary \<Rightarrow> event list \<Rightarrow> string \<Rightarrow> response \<times> event list" where
  "quick_summary files steps lg j =
     (case summary_inputs lg j of
        (Some momentLog, Some processingLog) \<Rightarrow>
          (case processingFile (details processingLog) of
             None \<Rightarrow> (Error 500 ''Quick summary failed'', lg)
           | Some pf \<Rightarrow>
               let vp = path_join ''temp'' pf;
                   moments = (case d_keyMoments (details momentLog) of
                                Some ms \<Rightarrow> ms | None \<Rightarrow> [])
               in (case createQuickSummary files steps vp moments of
                     Inr s \<Rightarrow>
                       (Json ''Quick summary created successfully'',
                        logActivity lg j ''quick_summary_completed''
                          (no_details\<lparr>d_result := Some s\<rparr>))
                   | Inl e \<Rightarrow> (Error 500 ''Quick summary failed'', lg)))
      | _ \<Rightarrow> (Error 404 ''Required data not found for this job'', lg))"

definition get_summary :: "event list \<Rightarrow> string \<Rightarrow> response" where
  \<comment> \<open>\<open>summaryData = details.result || details.summary\<close>; reading \<open>summaryData.output\<close> of
      a missing object throws, which the route answers with status 500.\<close>
  "get_summary lg j =
     (case get_summary_input lg j of
        None \<Rightarrow> Error 404 ''Summary not found for this job''
      | Some summaryLog \<Rightarrow>
          (let summaryData = (case d_result (details summaryLog) of
                                Some s \<Rightarrow> Some s
                              | None \<Rightarrow> d_summary (details summaryLog))
           in case summaryData of
                Some s \<Rightarrow> Json s
              | None \<Rightarrow> Error 500 ''Failed to get summary''))"

section \<open>Cleanup (videoSegmenter.js, videoSummarizer.js, fileManager.js, server route)\<close>

text \<open>
  The directories that cleanup touches. An entry of a directory is a regular file or a
  directory; \<open>fs.unlinkSync\<close> removes a regular file and throws on a directory.
  \<open>segments/<jobId>\<close> and \<open>thumbnails/<jobId>\<close> are directories that may not exist.
\<close>

datatype entry_kind = RegularFile | Directory

type_synonym dir_listing = "(string \<times> entry_kind) list"

record temp_entry =
  te_name :: string
  te_kind :: entry_kind
  mtime :: int
  te_size :: nat

record filesystem =
  segment_dirs :: "string \<rightharpoonup> dir_listing"
  thumbnail_dirs :: "string \<rightharpoonup> dir_listing"
  output_dir :: dir_listing
  temp_dir :: "temp_entry list"

text \<open>
  The result object of one cleanup category; \<open>deletedFiles\<close> is \<open>None\<close> when the object has
  no such property.
\<close>

record cleanup_result =
  cr_success :: bool
  deletedFiles :: "nat option"
  cr_message :: "string option"
  cr_error :: "string option"

fun unlink_each :: "dir_listing \<Rightarrow> dir_listing \<times> nat \<times> bool" where
  \<comment> \<open>unlinks the entries in order: what is left, how many were removed, and whether
      \<open>unlinkSync\<close> threw (at the first directory)\<close>
  "unlink_each [] = ([], 0, False)"
| "unlink_each ((n, k) # es) =
     (if k = Directory then ((n, k) # es, 0, True)
      else case unlink_each es of (rest, c, threw) \<Rightarrow> (rest, Suc c, threw))"

definition cleanupSegments :: "filesystem \<Rightarrow> string \<Rightarrow> cleanup_result \<times> filesystem" where
  "cleanupSegments fs j =
     (case segment_dirs fs j of
        None \<Rightarrow>
          (\<lparr>cr_success = True, deletedFiles = None,
            cr_message = Some ''No segments to clean up'', cr_error = None\<rparr>, fs)
      | Some files \<Rightarrow>
          (case unlink_each files of
             (rest, deletedCount, threw) \<Rightarrow>
               if threw
               then (\<lparr>cr_success = False, deletedFiles = None, cr_message = None,
                      cr_error = Some ''unlink failed''\<rparr>,
                     fs\<lparr>segment_dirs := (segment_dirs fs)(j \<mapsto> rest)\<rparr>)
               else (\<lparr>cr_success = True, deletedFiles = Some deletedCount,
                      cr_message = Some ''Cleaned up segment files'', cr_error = None\<rparr>,
                     fs\<lparr>segment_dirs := (segment_dirs fs)(j := None)\<rparr>)))"

definition cleanupThumbnails :: "filesystem \<Rightarrow> string \<Rightarrow> cleanup_result \<times> filesystem" where
  "cleanupThumbnails fs j =
     (case thumbnail_dirs fs j of
        None \<Rightarrow>
          (\<lparr>cr_success = True, deletedFiles = Some 0, cr_message = None, cr_error = None\<rparr>, fs)
      | Some files \<Rightarrow>
          (case unlink_each files of
             (rest, deletedCount, threw) \<Rightarrow>
               if threw
               then (\<lparr>cr_success = False, deletedFiles = None, cr_message = None,
                      cr_error = Some ''unlink failed''\<rparr>,
                     fs\<lparr>thumbnail_dirs := (thumbnail_dirs fs)(j \<mapsto> rest)\<rparr>)
               else (\<lparr>cr_success = True, deletedFiles = Some (length files),
                      cr_message = None, cr_error = None\<rparr>,
                     fs\<lparr>thumbnail_dirs := (thumbnail_dirs fs)(j := None)\<rparr>)))"

fun unlink_outputs :: "string list \<Rightarrow> dir_listing \<Rightarrow> dir_listing \<times> nat \<times> bool" where
  \<comment> \<open>\<open>outputFiles.forEach\<close>: a file that exists is unlinked and counted\<close>
  "unlink_outputs [] out = (out, 0, False)"
| "unlink_outputs (f # fs) out =
     (case map_of out f of
        None \<Rightarrow> unlink_outputs fs out
      | Some k \<Rightarrow>
          if k = Directory then (out, 0, True)
          else case unlink_outputs fs (filter (\<lambda>e. fst e \<noteq> f) out) of
                 (rest, c, threw) \<Rightarrow> (rest, Suc c, threw))"

definition cleanupOutput :: "filesystem \<Rightarrow> string \<Rightarrow> cleanup_result \<times> filesystem" where
  "cleanupOutput fs j =
     (case unlink_outputs [''summary_'' @ j @ ''.mp4'', ''summary_'' @ j @ ''_preview.mp4'']
             (output_dir fs) of
        (rest, deletedCount, threw) \<Rightarrow>
          if threw
          then (\<lparr>cr_success = False, deletedFiles = None, cr_message = None,
                 cr_error = Some ''unlink failed''\<rparr>, fs\<lparr>output_dir := rest\<rparr>)
          else (\<lparr>cr_success = True, deletedFiles = Some deletedCount, cr_message = None,
                 cr_error = None\<rparr>, fs\<lparr>output_dir := rest\<rparr>))"

record job_cleanup =
  jc_success :: bool
  res_segments :: cleanup_result
  res_thumbnails :: cleanup_result
  res_output :: cleanup_result

definition cleanupJob :: "filesystem \<Rightarrow> string \<Rightarrow> job_cleanup \<times> filesystem" where
  \<comment> \<open>The three helpers catch their own errors, so the outer \<open>catch\<close> is never entered.\<close>
  "cleanupJob fs j =
     (case cleanupSegments fs j of (rs, fs1) \<Rightarrow>
      case cleanupThumbnails fs1 j of (rt, fs2) \<Rightarrow>
      case cleanupOutput fs2 j of (ro, fs3) \<Rightarrow>
        (\<lparr>jc_success = True, res_segments = rs, res_thumbnails = rt, res_output = ro\<rparr>, fs3))"

record temp_cleanup =
  tc_success :: bool
  filesRemoved :: "nat option"
  bytesFreed :: "nat option"

fun temp_loop :: "rat \<Rightarrow> temp_entry list \<Rightarrow> temp_entry list \<times> nat \<times> nat \<times> bool" where
  \<comment> \<open>the loop of \<open>cleanupTempFiles\<close>: what is left, the count, the bytes, and whether
      \<open>unlinkSync\<close> threw\<close>
  "temp_loop cutoffTime [] = ([], 0, 0, False)"
| "temp_loop cutoffTime (e # es) =
     (if of_int (mtime e) < cutoffTime
      then (if te_kind e = Directory then (e # es, 0, 0, True)
            else case temp_loop cutoffTime es of
                   (rest, c, sz, threw) \<Rightarrow> (rest, Suc c, te_size e + sz, threw))
      else case temp_loop cutoffTime es of
             (rest, c, sz, threw) \<Rightarrow> (e # rest, c, sz, threw))"

definition cleanupTempFiles :: "filesystem \<Rightarrow> int \<Rightarrow> rat \<Rightarrow> temp_cleanup \<times> filesystem" where
  \<comment> \<open>\<open>now\<close> is \<open>Date.now()\<close> in milliseconds. The function has the one parameter
      \<open>maxAgeHours\<close>; a second argument of a call is dropped.\<close>
  "cleanupTempFiles fs now maxAgeHours =
     (let cutoffTime = of_int now - maxAgeHours * 60 * 60 * 1000 in
      case temp_loop cutoffTime (temp_dir fs) of
        (rest, cleanedCount, totalSize, threw) \<Rightarrow>
          if threw
          then (\<lparr>tc_success = False, filesRemoved = None, bytesFreed = None\<rparr>,
                fs\<lparr>temp_dir := rest\<rparr>)
          else (\<lparr>tc_success = True, filesRemoved = Some cleanedCount,
                 bytesFreed = Some totalSize\<rparr>,
                fs\<lparr>temp_dir := rest\<rparr>))"

definition cleanup_route ::
  "filesystem \<Rightarrow> int \<Rightarrow> event list \<Rightarrow> string \<Rightarrow>
     (job_cleanup \<times> temp_cleanup) \<times> filesystem \<times> event list" where
  \<comment> \<open>\<open>POST /cleanup/:jobId\<close>: \<open>cleanupJob(jobId)\<close>, then
      \<open>cleanupTempFiles(0, jobId)\<close>, then the \<open>cleanup_completed\<close> event\<close>
  "cleanup_route fs now lg j =
     (case cleanupJob fs j of (cleanupResult, fs1) \<Rightarrow>
      let maxAge = 0 in
      case cleanupTempFiles fs1 now maxAge of (tempCleanup, fs2) \<Rightarrow>
        ((cleanupResult, tempCleanup), fs2,
         logActivity lg j ''cleanup_completed'' no_details))"

section \<open>Composition statistics (videoComposer.js)\<close>

text \<open>
  A clip to compose (a "segment" of the composer) and the metadata of the final video.
  A quotient whose divisor is 0 is not a finite number in the source; it is \<open>None\<close> here.
\<close>

record clip =
  clip_title :: string
  clip_importance :: rat
  clip_duration :: rat

record final_metadata =
  md_duration :: rat
  bitRate :: int

record composition_stats =
  originalSegments :: nat
  originalDuration :: rat
  finalDuration :: rat
  stats_compressionRatio :: "rat option"
  averageSegmentDuration :: "rat option"

definition round2 :: "rat \<Rightarrow> rat" where
  \<comment> \<open>\<open>Math.round(x * 100) / 100\<close>\<close>
  "round2 x = of_int (Math_round (x * 100)) / 100"

definition getCompositionStats :: "clip list \<Rightarrow> final_metadata \<Rightarrow> composition_stats" where
  "getCompositionStats segs finalMetadata =
     (let total = foldl (\<lambda>sum seg. sum + clip_duration seg) 0 segs;
          ratio = (if total = 0 then None
                   else Some ((total - md_duration finalMetadata) / total * 100))
      in \<lparr>originalSegments = length segs,
          originalDuration = round2 total,
          finalDuration = md_duration finalMetadata,
          stats_compressionRatio = map_option round2 ratio,
          averageSegmentDuration =
            (if length segs = 0 then None
             else Some (round2 (total / of_nat (length segs))))\<rparr>)"

section \<open>Specification predicates and concrete inputs\<close>

text \<open>
  \<open>first_match lg j P e\<close>: \<open>e\<close> is the earliest event of the log, in append order, that
  belongs to job \<open>j\<close> and satisfies \<open>P\<close>.
\<close>

definition first_match :: "event list \<Rightarrow> string \<Rightarrow> (event \<Rightarrow> bool) \<Rightarrow> event \<Rightarrow> bool" where
  "first_match lg j P e =
     (\<exists>pre post. lg = pre @ e # post \<and> jobId e = j \<and> P e \<and>
        \<not> list_ex (\<lambda>x. jobId x = j \<and> P x) pre)"

definition opening_moment :: moment_in where
  "opening_moment = \<lparr>in_title = ''Opening'', in_startTime = Some 0, in_endTime = Some 10,
     in_importance = 8\<rparr>"

definition later_moment :: moment_in where
  "later_moment = \<lparr>in_title = ''Later'', in_startTime = Some 12, in_endTime = Some 20,
     in_importance = 6\<rparr>"

definition processing_event :: event where
  "processing_event = \<lparr>jobId = ''job1'', activity = ''processing_started'',
     details = no_details\<lparr>processingFile := Some ''proc-video.mp4''\<rparr>\<rparr>"

definition first_audio :: event where
  "first_audio = \<lparr>jobId = ''job1'', activity = ''audio_extraction_completed'',
     details = no_details\<lparr>audioFile := Some ''first.wav''\<rparr>\<rparr>"

definition second_audio :: event where
  "second_audio = \<lparr>jobId = ''job1'', activity = ''audio_extraction_completed'',
     details = no_details\<lparr>audioFile := Some ''second.wav''\<rparr>\<rparr>"

definition other_audio :: event where
  "other_audio = \<lparr>jobId = ''job2'', activity = ''audio_extraction_completed'',
     details = no_details\<lparr>audioFile := Some ''other.wav''\<rparr>\<rparr>"

definition transcribed_event :: event where
  "transcribed_event = \<lparr>jobId = ''job1'', activity = ''transcription_completed'',
     details = no_details\<lparr>d_transcription :=
       Some \<lparr>tr_text = None, segments = None, duration = None, totalDuration = Some 95\<rparr>\<rparr>\<rparr>"

definition analyzed_event :: event where
  "analyzed_event = \<lparr>jobId = ''job1'', activity = ''moment_analysis_completed'',
     details = no_details\<lparr>d_keyMoments := Some [later_moment]\<rparr>\<rparr>"

definition summarized_event :: event where
  "summarized_event = \<lparr>jobId = ''job1'', activity = ''video_summarization_completed'',
     details = no_details\<lparr>d_result := Some ''summary_job1.mp4''\<rparr>\<rparr>"

text \<open>A log in which audio extraction ran twice for \<open>job1\<close>.\<close>

definition rerun_log :: "event list" where
  "rerun_log =
     [processing_event, first_audio, other_audio, second_audio, transcribed_event,
      analyzed_event, summarized_event]"

text \<open>A log that satisfies the prerequisite check of the two summary stages.\<close>

definition ready_log :: "event list" where
  "ready_log = [processing_event, analyzed_event]"

definition job_files :: filesystem where
  "job_files =
     \<lparr>segment_dirs = [''job1'' \<mapsto> [(''moment_01_intro.mp4'', RegularFile),
                                    (''moment_02_review.mp4'', RegularFile)]],
      thumbnail_dirs = [''job1'' \<mapsto> [(''moment_01_intro.jpg'', RegularFile)]],
      output_dir = [(''summary_job1.mp4'', RegularFile), (''summary_job2.mp4'', RegularFile)],
      temp_dir = []\<rparr>"

text \<open>The compression ratio as the specification words it, before rounding.\<close>

definition spec_ratio :: "rat \<Rightarrow> rat \<Rightarrow> rat" where
  "spec_ratio orig final = (orig - final) / orig * 100"

definition two_clips :: "clip list" where
  "two_clips = [\<lparr>clip_title = ''Intro'', clip_importance = 7, clip_duration = 60\<rparr>,
                \<lparr>clip_title = ''Review'', clip_importance = 6, clip_duration = 40\<rparr>]"

text \<open>
  The timestamp rule as the specification words it: a time strictly between 1 and 10 is
  taken for minutes and multiplied by 60; a moment is in range when
  \<open>0 \<le> startTime < endTime \<le> videoDuration\<close>.
\<close>

definition spec_corrected_time :: "rat \<Rightarrow> rat" where
  "spec_corrected_time x = (if 1 < x \<and> x < 10 then x * 60 else x)"

definition spec_corrected :: "moment \<Rightarrow> moment" where
  "spec_corrected m =
     m\<lparr>startTime := spec_corrected_time (startTime m),
       endTime := spec_corrected_time (endTime m)\<rparr>"

definition spec_in_range :: "rat \<Rightarrow> moment \<Rightarrow> bool" where
  "spec_in_range vd m = (0 \<le> startTime m \<and> startTime m < endTime m \<and> endTime m \<le> vd)"

text \<open>
  What the fallback generator puts into each field of a moment it builds: non-empty
  texts, the category \<open>workflow_phase\<close>, an importance of 5, 6 or 7.
\<close>

definition schema_ok :: "moment \<Rightarrow> bool" where
  "schema_ok m =
     (title m \<noteq> [] \<and> description m \<noteq> [] \<and> reason m \<noteq> [] \<and> workflowContext m \<noteq> [] \<and>
      category m = ''workflow_phase'' \<and>
      (importance m = 5 \<or> importance m = 6 \<or> importance m = 7))"

definition short_transcription :: transcription where
  "short_transcription =
     \<lparr>tr_text = Some ''hello world'',
      segments = Some [\<lparr>seg_start = 0, seg_end = 8, seg_text = ''hello world''\<rparr>],
      duration = Some 8, totalDuration = None\<rparr>"

definition demo_transcription :: transcription where
  "demo_transcription =
     \<lparr>tr_text = Some ''Hello world Now check the Email'',
      segments = Some [\<lparr>seg_start = 0, seg_end = 8, seg_text = ''Hello world''\<rparr>,
                       \<lparr>seg_start = 8, seg_end = 20, seg_text = ''Now check the Email''\<rparr>],
      duration = Some 40, totalDuration = None\<rparr>"

definition minutes_moment :: moment where
  "minutes_moment =
     \<lparr>title = ''Email check'', description = ''Reads the inbox'', startTime = 3 / 2,
      endTime = 16 / 5, importance = 7, category = ''data_review'', reason = ''r'',
      workflowContext = ''w''\<rparr>"

definition late_moment :: moment where
  "late_moment = minutes_moment\<lparr>startTime := 250, endTime := 310\<rparr>"

definition detector_analysis :: analysis where
  "detector_analysis =
     \<lparr>keyMoments = Some [minutes_moment, late_moment], totalOriginalDuration = Some 300,
      recommendedSummaryDuration = None, compressionRatio = None, momentCount = None\<rparr>"

definition shared_temp :: filesystem where
  "shared_temp =
     \<lparr>segment_dirs = Map.empty, thumbnail_dirs = Map.empty, output_dir = [],
      temp_dir =
        [\<lparr>te_name = ''proc-job2-video.mp4'', te_kind = RegularFile, mtime = 1000, te_size = 5000\<rparr>,
         \<lparr>te_name = ''audio-job3.wav'', te_kind = RegularFile, mtime = 1900, te_size = 700\<rparr>,
         \<lparr>te_name = ''concat_job2.txt'', te_kind = RegularFile, mtime = 1999, te_size = 90\<rparr>]\<rparr>"

section \<open>Properties of the filter engine\<close>

lemma insert_by_key:
  assumes "\<And>a b. cmp a b = f a - f b"
  shows "insert_by cmp x ys = insort_key f x ys"
  by (induction ys) (simp_all add: assms)

lemma sort_by_key:
  assumes "\<And>a b. cmp a b = f a - f b"
  shows "sort_by cmp xs = sort_key f xs"
proof -
  have "insert_by cmp = insort_key f"
    by (intro ext) (rule insert_by_key [OF assms])
  then show ?thesis by (simp add: sort_by_def sort_key_def)
qed

lemma sort_importance_key: "sort_by by_importance_desc xs = sort_key (\<lambda>m. - importance m) xs"
  by (rule sort_by_key) (simp add: by_importance_desc_def)

lemma sort_duration_key:
  "sort_by by_duration_desc xs = sort_key (\<lambda>m. - (endTime m - startTime m)) xs"
  by (rule sort_by_key) (simp add: by_duration_desc_def)

lemma sort_start_key: "sort_by by_start_asc xs = sort_key startTime xs"
  by (rule sort_by_key) (simp add: by_start_asc_def)

lemma final_sort_key: "final_sort options xs = sort_key (final_key options) xs"
  unfolding final_sort_def final_key_def
  by (simp add: sort_importance_key sort_duration_key sort_start_key)

lemma set_final_sort: "set (final_sort options xs) = set xs"
  by (simp add: final_sort_key)

lemma length_final_sort: "length (final_sort options xs) = length xs"
  by (simp add: final_sort_key)

lemma final_sort_sorted: "sorted (map (final_key options) (final_sort options xs))"
  by (simp add: final_sort_key)

lemma final_sort_id: "sorted (map (final_key options) xs) \<Longrightarrow> final_sort options xs = xs"
  by (simp add: final_sort_key sort_key_id_if_sorted)

lemma set_slice0: "set (slice0 xs n) \<subseteq> set xs"
  unfolding slice0_def Let_def by (auto dest: in_set_takeD)

lemma set_limit_moments: "set (limit_moments options xs) \<subseteq> set xs"
proof -
  have "set (slice0 (sort_by by_importance_desc xs) n) \<subseteq> set xs" for n
    using set_slice0 [of "sort_by by_importance_desc xs" n] by (simp add: sort_importance_key)
  then show ?thesis
    unfolding limit_moments_def by (auto split: option.splits)
qed

lemma length_slice0_positive:
  assumes "0 < n"
  shows "of_nat (length (slice0 xs n)) \<le> n"
proof -
  have k: "to_integer n = \<lfloor>n\<rfloor>" "0 \<le> \<lfloor>n\<rfloor>" using assms by (simp_all add: to_integer_def)
  have "length (slice0 xs n) \<le> nat \<lfloor>n\<rfloor>" using k by (simp add: slice0_def)
  then have "(of_nat (length (slice0 xs n)) :: rat) \<le> of_nat (nat \<lfloor>n\<rfloor>)"
    by (simp only: of_nat_le_iff)
  also have "\<dots> = of_int \<lfloor>n\<rfloor>" using k(2) by simp
  also have "\<dots> \<le> n" by (rule of_int_floor_le)
  finally show ?thesis .
qed

lemma length_limit_moments:
  assumes "maxMoments options = Some n" "0 < n"
  shows "of_nat (length (limit_moments options xs)) \<le> n"
proof (cases "of_nat (length xs) > n")
  case True
  then show ?thesis
    using assms length_slice0_positive [OF assms(2), of "sort_by by_importance_desc xs"]
    by (simp add: limit_moments_def)
next
  case False
  then show ?thesis using assms by (simp add: limit_moments_def)
qed

lemma set_filter_min_importance: "set (filter_min_importance options xs) \<subseteq> set xs"
  unfolding filter_min_importance_def by (auto split: option.splits)

lemma set_filter_categories: "set (filter_categories options xs) \<subseteq> set xs"
  unfolding filter_categories_def by (auto split: option.splits)

lemma set_filter_max_duration: "set (filter_max_duration options xs) \<subseteq> set xs"
  unfolding filter_max_duration_def by (auto split: option.splits)

lemma filter_min_importance_keeps:
  "set xs \<subseteq> set (filter_min_importance options ys) \<Longrightarrow> filter_min_importance options xs = xs"
  unfolding filter_min_importance_def
  by (auto split: option.splits if_splits simp: filter_id_conv)

lemma filter_categories_keeps:
  "set xs \<subseteq> set (filter_categories options ys) \<Longrightarrow> filter_categories options xs = xs"
  unfolding filter_categories_def
  by (auto split: option.splits if_splits simp: filter_id_conv)

lemma filter_max_duration_keeps:
  "set xs \<subseteq> set (filter_max_duration options ys) \<Longrightarrow> filter_max_duration options xs = xs"
  unfolding filter_max_duration_def
  by (auto split: option.splits if_splits simp: filter_id_conv)

lemma limit_moments_keeps:
  assumes "\<forall>n. maxMoments options = Some n \<longrightarrow> 0 \<le> n"
    and "length xs \<le> length (limit_moments options ys)"
  shows "limit_moments options xs = xs"
proof (cases "maxMoments options")
  case None
  then show ?thesis by (simp add: limit_moments_def)
next
  case (Some n)
  show ?thesis
  proof (cases "n = 0")
    case True
    with Some show ?thesis by (simp add: limit_moments_def)
  next
    case False
    with assms(1) Some have pos: "0 < n" by auto
    have "(of_nat (length xs) :: rat) \<le> of_nat (length (limit_moments options ys))"
      using assms(2) by (simp only: of_nat_le_iff)
    also have "\<dots> \<le> n" by (rule length_limit_moments [OF Some pos])
    finally have "\<not> of_nat (length xs) > n" by simp
    with Some show ?thesis by (simp add: limit_moments_def)
  qed
qed

lemma set_filterMoments:
  "set (filterMoments moments options) \<subseteq>
     set (filter_max_duration options (filter_categories options
            (filter_min_importance options moments)))"
  unfolding filterMoments_def using set_limit_moments by (simp add: set_final_sort)

text \<open>
  C8 (as amended). Filtering is idempotent for every moment list and every options object
  whose \<open>maxMoments\<close> is absent or not negative: applying \<open>filterMoments\<close> with the same
  options to its own output returns that output unchanged.
\<close>

theorem filterMoments_idempotent:
  assumes "\<forall>n. maxMoments options = Some n \<longrightarrow> 0 \<le> n"
  shows "filterMoments (filterMoments moments options) options = filterMoments moments options"
proof -
  define I where "I = filter_min_importance options moments"
  define C where "C = filter_categories options I"
  define D where "D = filter_max_duration options C"
  define L where "L = limit_moments options D"
  define out where "out = final_sort options L"
  have out: "filterMoments moments options = out"
    by (simp add: filterMoments_def I_def C_def D_def L_def out_def)
  have sL: "set out \<subseteq> set D"
    using set_limit_moments [of options D] by (simp add: out_def L_def set_final_sort)
  have sC: "set out \<subseteq> set C"
    using sL set_filter_max_duration [of options C] by (auto simp: D_def)
  have sI: "set out \<subseteq> set I"
    using sC set_filter_categories [of options I] by (auto simp: C_def)
  have 1: "filter_min_importance options out = out"
    using sI unfolding I_def by (rule filter_min_importance_keeps)
  have 2: "filter_categories options out = out"
    using sC unfolding C_def by (rule filter_categories_keeps)
  have 3: "filter_max_duration options out = out"
    using sL unfolding D_def by (rule filter_max_duration_keeps)
  have 4: "limit_moments options out = out"
    by (rule limit_moments_keeps [where ys = D, OF assms])
      (simp add: out_def L_def length_final_sort)
  have 5: "final_sort options out = out"
    by (rule final_sort_id) (simp add: out_def final_sort_sorted)
  show ?thesis
    unfolding out by (simp add: filterMoments_def [of out] 1 2 3 4 5)
qed

lemma filterMoments_min_importance:
  assumes "minImportance options = Some mi" "mi \<noteq> 0" "m \<in> set (filterMoments moments options)"
  shows "importance m \<ge> mi"
proof -
  have "m \<in> set (filter_min_importance options moments)"
    using assms(3) set_filterMoments [of moments options]
      set_filter_max_duration set_filter_categories by blast
  then show ?thesis using assms(1,2) by (simp add: filter_min_importance_def)
qed

lemma filterMoments_categories:
  assumes "includeCategories options = Some cs" "cs \<noteq> []" "m \<in> set (filterMoments moments options)"
  shows "category m \<in> set cs"
proof -
  have "m \<in> set (filter_categories options (filter_min_importance options moments))"
    using assms(3) set_filterMoments [of moments options] set_filter_max_duration by blast
  then show ?thesis using assms(1,2) by (simp add: filter_categories_def)
qed

lemma filterMoments_length:
  assumes "maxMoments options = Some n" "0 < n"
  shows "of_nat (length (filterMoments moments options)) \<le> n"
  unfolding filterMoments_def length_final_sort
  by (rule length_limit_moments [OF assms])

lemma filterMoments_order_importance:
  assumes "sortBy options = ''importance''"
  shows "sorted_wrt (\<lambda>a b. importance a \<ge> importance b) (filterMoments moments options)"
  using final_sort_sorted [of options] assms
  by (simp add: filterMoments_def final_key_def sorted_map)

lemma filterMoments_order_duration:
  assumes "sortBy options = ''duration''"
  shows "sorted_wrt (\<lambda>a b. endTime a - startTime a \<ge> endTime b - startTime b)
           (filterMoments moments options)"
proof -
  have "sorted_wrt (\<lambda>a b. - (endTime a - startTime a) \<le> - (endTime b - startTime b))
          (filterMoments moments options)"
    using final_sort_sorted [of options] assms
    by (simp add: filterMoments_def final_key_def sorted_map)
  then show ?thesis by (rule sorted_wrt_mono_rel [rotated]) linarith
qed

lemma filterMoments_order_chronological:
  assumes "sortBy options \<noteq> ''importance''" "sortBy options \<noteq> ''duration''"
  shows "sorted_wrt (\<lambda>a b. startTime a \<le> startTime b) (filterMoments moments options)"
  using final_sort_sorted [of options] assms
  by (simp add: filterMoments_def final_key_def sorted_map)

lemma filterMoments_scenario:
  assumes "map importance ms = [9, 3, 7, 8, 2, 6, 5, 4]"
    and "minImportance options = Some 5" "maxMoments options = Some 3"
    and "sortMomentsBy options = Some ''importance''"
    and "includeCategories options = None" "maxMomentDuration options = None"
  shows "filterMoments ms options = [ms ! 0, ms ! 3, ms ! 2]"
proof -
  obtain a b c d e f g h where ms: "ms = [a, b, c, d, e, f, g, h]"
    using assms(1) by (auto simp: map_eq_Cons_conv)
  have imp: "importance a = 9" "importance b = 3" "importance c = 7" "importance d = 8"
    "importance e = 2" "importance f = 6" "importance g = 5" "importance h = 4"
    using assms(1) by (simp_all add: ms)
  show ?thesis
    unfolding filterMoments_def filter_min_importance_def filter_categories_def
      filter_max_duration_def limit_moments_def final_sort_def sortBy_def sort_by_def
    by (simp add: assms(2-) ms imp by_importance_desc_def slice0_def to_integer_def)
qed

lemma ceiling_minus_one_rat: "\<lceil>- 1 :: rat\<rceil> = - 1"
  by (rule ceiling_unique) simp_all

lemmas filterMoments_unfold =
  filterMoments_def filter_min_importance_def filter_categories_def filter_max_duration_def
  limit_moments_def slice0_def to_integer_def final_sort_def sortBy_def sort_by_def
  by_importance_desc_def by_duration_desc_def by_start_asc_def

text \<open>
  C2 (as amended). For every moment list and every options object, the output of
  \<open>filterMoments\<close> satisfies: every moment has importance at least \<open>minImportance\<close> when
  that option is set to a non-zero value; every moment has its category in
  \<open>includeCategories\<close> when that list is set and non-empty; the output has at most
  \<open>maxMoments\<close> elements when that option is set to a positive value; and the output is
  ordered by descending importance, by descending duration, or (for any other value of
  \<open>sortMomentsBy\<close>, and when it is absent) by ascending start time. For any 8 moments with
  importances 9, 3, 7, 8, 2, 6, 5, 4 and the options \<open>minImportance = 5\<close>,
  \<open>maxMoments = 3\<close>, \<open>sortMomentsBy = importance\<close>, the output is the first, fourth and third
  moment, in that order (importances 9, 8, 7).
\<close>

theorem filterMoments_output:
  "(\<forall>mi. minImportance options = Some mi \<and> mi \<noteq> 0 \<longrightarrow>
      (\<forall>m \<in> set (filterMoments moments options). importance m \<ge> mi)) \<and>
   (\<forall>cs. includeCategories options = Some cs \<and> cs \<noteq> [] \<longrightarrow>
      (\<forall>m \<in> set (filterMoments moments options). category m \<in> set cs)) \<and>
   (\<forall>n. maxMoments options = Some n \<and> 0 < n \<longrightarrow>
      of_nat (length (filterMoments moments options)) \<le> n) \<and>
   (sortBy options = ''importance'' \<longrightarrow>
      sorted_wrt (\<lambda>a b. importance a \<ge> importance b) (filterMoments moments options)) \<and>
   (sortBy options = ''duration'' \<longrightarrow>
      sorted_wrt (\<lambda>a b. endTime a - startTime a \<ge> endTime b - startTime b)
        (filterMoments moments options)) \<and>
   (sortBy options \<noteq> ''importance'' \<and> sortBy options \<noteq> ''duration'' \<longrightarrow>
      sorted_wrt (\<lambda>a b. startTime a \<le> startTime b) (filterMoments moments options)) \<and>
   (map importance moments = [9, 3, 7, 8, 2, 6, 5, 4] \<and>
    minImportance options = Some 5 \<and> maxMoments options = Some 3 \<and>
    sortMomentsBy options = Some ''importance'' \<and>
    includeCategories options = None \<and> maxMomentDuration options = None \<longrightarrow>
      filterMoments moments options = [moments ! 0, moments ! 3, moments ! 2])"
proof (intro conjI allI impI ballI)
  fix mi m
  assume "minImportance options = Some mi \<and> mi \<noteq> 0"
    and "m \<in> set (filterMoments moments options)"
  then show "importance m \<ge> mi" using filterMoments_min_importance by blast
next
  fix cs m
  assume "includeCategories options = Some cs \<and> cs \<noteq> []"
    and "m \<in> set (filterMoments moments options)"
  then show "category m \<in> set cs" using filterMoments_categories by blast
next
  fix n
  assume "maxMoments options = Some n \<and> 0 < n"
  then show "of_nat (length (filterMoments moments options)) \<le> n"
    using filterMoments_length by blast
next
  assume "sortBy options = ''importance''"
  then show "sorted_wrt (\<lambda>a b. importance a \<ge> importance b) (filterMoments moments options)"
    by (rule filterMoments_order_importance)
next
  assume "sortBy options = ''duration''"
  then show "sorted_wrt (\<lambda>a b. endTime a - startTime a \<ge> endTime b - startTime b)
               (filterMoments moments options)"
    by (rule filterMoments_order_duration)
next
  assume "sortBy options \<noteq> ''importance'' \<and> sortBy options \<noteq> ''duration''"
  then show "sorted_wrt (\<lambda>a b. startTime a \<le> startTime b) (filterMoments moments options)"
    using filterMoments_order_chronological by blast
next
  assume "map importance moments = [9, 3, 7, 8, 2, 6, 5, 4] \<and>
    minImportance options = Some 5 \<and> maxMoments options = Some 3 \<and>
    sortMomentsBy options = Some ''importance'' \<and>
    includeCategories options = None \<and> maxMomentDuration options = None"
  then show "filterMoments moments options = [moments ! 0, moments ! 3, moments ! 2]"
    by (intro filterMoments_scenario) simp_all
qed

theorem filterMoments_output_witness:
  "map importance (filterMoments scenario_moments example_options) = [9, 8, 7] \<and>
   length (filterMoments scenario_moments example_options) \<le> 3 \<and>
   list_all (\<lambda>m. importance m \<ge> 5) (filterMoments scenario_moments example_options) \<and>
   sorted_wrt (\<lambda>a b. importance a \<ge> importance b)
     (filterMoments scenario_moments example_options) \<and>
   list_all (\<lambda>m. category m \<in> set [''decision''])
     (filterMoments [decision_moment 4 0 5, example_moment 9 5 30,
        decision_moment 6 30 50] category_options) \<and>
   sorted_wrt (\<lambda>a b. endTime a - startTime a \<ge> endTime b - startTime b)
     (filterMoments [decision_moment 4 0 5, example_moment 9 5 30,
        decision_moment 6 30 50] category_options) \<and>
   sorted_wrt (\<lambda>a b. startTime a \<le> startTime b)
     (filterMoments [example_moment 7 10 20, example_moment 4 0 5] zero_limit_options)"
proof -
  have a: "map importance scenario_moments = [9, 3, 7, 8, 2, 6, 5, 4]"
    by (simp add: scenario_moments_def example_moment_def)
  have b: "minImportance example_options = Some 5 \<and> (5::rat) \<noteq> 0"
    "maxMoments example_options = Some 3 \<and> (0::rat) < 3"
    "sortMomentsBy example_options = Some ''importance''"
    "includeCategories example_options = None" "maxMomentDuration example_options = None"
    "sortBy example_options = ''importance''"
    by (simp_all add: example_options_def sortBy_def)
  have c: "includeCategories category_options = Some [''decision''] \<and> [''decision''] \<noteq> []"
    "sortBy category_options = ''duration''"
    by (simp_all add: category_options_def sortBy_def)
  have d: "sortBy zero_limit_options \<noteq> ''importance'' \<and> sortBy zero_limit_options \<noteq> ''duration''"
    by (simp add: zero_limit_options_def sortBy_def)
  have e: "[scenario_moments ! 0, scenario_moments ! 3, scenario_moments ! 2] =
      [example_moment 9 0 5, example_moment 8 30 35, example_moment 7 20 25]"
    by (simp add: scenario_moments_def)
  note s = filterMoments_output [of example_options scenario_moments]
  note t = filterMoments_output [of category_options
      "[decision_moment 4 0 5, example_moment 9 5 30, decision_moment 6 30 50]"]
  note u = filterMoments_output [of zero_limit_options
      "[example_moment 7 10 20, example_moment 4 0 5]"]
  have 1: "filterMoments scenario_moments example_options =
      [example_moment 9 0 5, example_moment 8 30 35, example_moment 7 20 25]"
    using s a b e by simp
  have "rat_of_nat (length (filterMoments scenario_moments example_options)) \<le> 3"
    using s b(2) by blast
  then have 2: "length (filterMoments scenario_moments example_options) \<le> 3"
    by (metis of_nat_le_iff of_nat_numeral)
  have 3: "\<forall>m \<in> set (filterMoments scenario_moments example_options). importance m \<ge> 5"
    using s b(1) by blast
  have 4: "sorted_wrt (\<lambda>a b. importance a \<ge> importance b)
     (filterMoments scenario_moments example_options)"
    using s b(6) by blast
  have 5: "\<forall>m \<in> set (filterMoments [decision_moment 4 0 5, example_moment 9 5 30,
        decision_moment 6 30 50] category_options). category m \<in> set [''decision'']"
    using t c(1) by blast
  have 6: "sorted_wrt (\<lambda>a b. endTime a - startTime a \<ge> endTime b - startTime b)
     (filterMoments [decision_moment 4 0 5, example_moment 9 5 30,
        decision_moment 6 30 50] category_options)"
    using t c(2) by blast
  have 7: "sorted_wrt (\<lambda>a b. startTime a \<le> startTime b)
     (filterMoments [example_moment 7 10 20, example_moment 4 0 5] zero_limit_options)"
    using u d by blast
  have 8: "map importance (filterMoments scenario_moments example_options) = [9, 8, 7]"
    unfolding 1 by (simp add: example_moment_def)
  show ?thesis using 2 3 4 5 6 7 8 unfolding list_all_iff by blast
qed

text \<open>
  C2 as stated fails on three inputs. With \<open>maxMoments\<close> set to 0 the guard
  \<open>options.maxMoments && ...\<close> takes 0 for "not set", nothing is truncated, and two
  moments come out although the limit is 0. With \<open>maxMoments\<close> set to -1,
  \<open>slice(0, -1)\<close> drops one moment and one comes out. With \<open>minImportance\<close> set to 0
  the guard \<open>if (options.minImportance)\<close> skips the filter, and a moment of importance -1
  stays.
\<close>

theorem filterMoments_limit_counterexample:
  "maxMoments zero_limit_options = Some 0 \<and>
   length (filterMoments [example_moment 7 0 5, example_moment 4 10 20] zero_limit_options) = 2 \<and>
   maxMoments negative_limit_options = Some (- 1) \<and>
   length (filterMoments [example_moment 7 0 5, example_moment 4 10 20] negative_limit_options)
     = 1 \<and>
   minImportance zero_importance_options = Some 0 \<and>
   map importance (filterMoments [example_moment (- 1) 0 5] zero_importance_options) = [- 1]"
  by (simp add: filterMoments_unfold zero_limit_options_def negative_limit_options_def
      zero_importance_options_def example_moment_def ceiling_minus_one_rat)

text \<open>
  C8 as stated fails when \<open>maxMoments\<close> is negative: with -1, \<open>slice(0, -1)\<close> drops one
  more moment on every pass, so two moments give one, and filtering that again gives none.
\<close>

theorem filterMoments_not_idempotent_counterexample:
  "filterMoments [example_moment 7 0 5, example_moment 4 10 20] negative_limit_options
     = [example_moment 7 0 5] \<and>
   filterMoments
     (filterMoments [example_moment 7 0 5, example_moment 4 10 20] negative_limit_options)
     negative_limit_options = []"
  by (simp add: filterMoments_unfold negative_limit_options_def example_moment_def
      ceiling_minus_one_rat)

theorem filterMoments_idempotent_witness:
  "filterMoments (filterMoments scenario_moments example_options) example_options =
   filterMoments scenario_moments example_options \<and>
   length (filterMoments scenario_moments example_options) = 3"
proof -
  have h: "\<forall>n. maxMoments example_options = Some n \<longrightarrow> 0 \<le> n"
    by (simp add: example_options_def)
  have "length (filterMoments scenario_moments example_options) = 3"
    by (simp add: filterMoments_unfold scenario_moments_def example_options_def
        example_moment_def)
  then show ?thesis
    using filterMoments_idempotent [OF h, of scenario_moments] by simp
qed

section \<open>Prerequisite resolution of the stages\<close>

lemma find_filter_first:
  "find P (filter Q lg) = Some e \<Longrightarrow>
     \<exists>pre post. lg = pre @ e # post \<and> Q e \<and> P e \<and> \<not> list_ex (\<lambda>x. Q x \<and> P x) pre"
proof (induction lg)
  case Nil
  then show ?case by simp
next
  case (Cons x lg)
  show ?case
  proof (cases "Q x \<and> P x")
    case True
    with Cons.prems have "e = x" by simp
    with True show ?thesis by (intro exI [of _ "[]"] exI [of _ lg]) simp
  next
    case False
    with Cons.prems have "find P (filter Q lg) = Some e" by (auto split: if_splits)
    from Cons.IH [OF this] obtain pre post where
      "lg = pre @ e # post" "Q e" "P e" "\<not> list_ex (\<lambda>x. Q x \<and> P x) pre" by blast
    with False show ?thesis
      by (intro exI [of _ "x # pre"] exI [of _ post]) simp
  qed
qed

lemma find_activity_first:
  "find_activity (getJobLogs lg j) a = Some e \<Longrightarrow> first_match lg j (\<lambda>l. activity l = a) e"
  unfolding find_activity_def getJobLogs_def first_match_def
  by (drule find_filter_first) simp

lemma get_summary_first:
  "get_summary_input lg j = Some e \<Longrightarrow> first_match lg j is_summary_event e"
  unfolding get_summary_input_def getJobLogs_def first_match_def
  by (drule find_filter_first) simp

lemmas log_unfold =
  transcribe_input_def analyze_inputs_def summary_inputs_def get_summary_input_def
  find_activity_def getJobLogs_def is_summary_event_def rerun_log_def ready_log_def
  processing_event_def first_audio_def second_audio_def other_audio_def
  transcribed_event_def analyzed_event_def summarized_event_def no_details_def
  later_moment_def

text \<open>
  C1 (as amended). For every log and job, the event that a stage (transcribe,
  analyze-moments, create-summary and quick-summary, get-summary) resolves as its
  prerequisite is the first-appended event of that job with the required activity: no
  event of the job with that activity precedes it in the log. Later events of the same
  kind do not supersede it.
\<close>

theorem stages_resolve_first_match:
  "(transcribe_input lg j = Some e \<longrightarrow>
      first_match lg j (\<lambda>l. activity l = ''audio_extraction_completed'') e) \<and>
   (fst (analyze_inputs lg j) = Some e \<longrightarrow>
      first_match lg j (\<lambda>l. activity l = ''transcription_completed'') e) \<and>
   (fst (snd (analyze_inputs lg j)) = Some e \<longrightarrow>
      first_match lg j (\<lambda>l. activity l = ''audio_extraction_completed'') e) \<and>
   (snd (snd (analyze_inputs lg j)) = Some e \<longrightarrow>
      first_match lg j (\<lambda>l. activity l = ''processing_started'') e) \<and>
   (fst (summary_inputs lg j) = Some e \<longrightarrow>
      first_match lg j (\<lambda>l. activity l = ''moment_analysis_completed'') e) \<and>
   (snd (summary_inputs lg j) = Some e \<longrightarrow>
      first_match lg j (\<lambda>l. activity l = ''processing_started'') e) \<and>
   (get_summary_input lg j = Some e \<longrightarrow> first_match lg j is_summary_event e)"
  by (simp add: transcribe_input_def analyze_inputs_def summary_inputs_def Let_def
      find_activity_first get_summary_first)

theorem stages_resolve_first_match_witness:
  "transcribe_input rerun_log ''job1'' = Some first_audio \<and>
   first_match rerun_log ''job1'' (\<lambda>l. activity l = ''audio_extraction_completed'') first_audio \<and>
   analyze_inputs rerun_log ''job1'' =
     (Some transcribed_event, Some first_audio, Some processing_event) \<and>
   first_match rerun_log ''job1'' (\<lambda>l. activity l = ''transcription_completed'')
     transcribed_event \<and>
   first_match rerun_log ''job1'' (\<lambda>l. activity l = ''processing_started'') processing_event \<and>
   summary_inputs rerun_log ''job1'' = (Some analyzed_event, Some processing_event) \<and>
   first_match rerun_log ''job1'' (\<lambda>l. activity l = ''moment_analysis_completed'')
     analyzed_event \<and>
   get_summary_input rerun_log ''job1'' = Some summarized_event \<and>
   first_match rerun_log ''job1'' is_summary_event summarized_event"
proof -
  have a: "transcribe_input rerun_log ''job1'' = Some first_audio"
    by (simp add: log_unfold)
  have b: "analyze_inputs rerun_log ''job1'' =
     (Some transcribed_event, Some first_audio, Some processing_event)"
    by (simp add: log_unfold)
  have c: "summary_inputs rerun_log ''job1'' = (Some analyzed_event, Some processing_event)"
    by (simp add: log_unfold)
  have d: "get_summary_input rerun_log ''job1'' = Some summarized_event"
    by (simp add: log_unfold)
  note t = stages_resolve_first_match [of rerun_log "''job1''"]
  have 1: "first_match rerun_log ''job1'' (\<lambda>l. activity l = ''audio_extraction_completed'')
      first_audio"
    using t [of first_audio] a by blast
  have 2: "first_match rerun_log ''job1'' (\<lambda>l. activity l = ''transcription_completed'')
      transcribed_event"
    using t [of transcribed_event] b by simp
  have 3: "first_match rerun_log ''job1'' (\<lambda>l. activity l = ''processing_started'')
      processing_event"
    using t [of processing_event] b by simp
  have 4: "first_match rerun_log ''job1'' (\<lambda>l. activity l = ''moment_analysis_completed'')
      analyzed_event"
    using t [of analyzed_event] c by simp
  have 5: "first_match rerun_log ''job1'' is_summary_event summarized_event"
    using t [of summarized_event] d by blast
  show ?thesis using a b c d 1 2 3 4 5 by blast
qed

text \<open>
  C1 as stated fails: after audio extraction has run twice for a job, transcribe resolves
  the first \<open>audio_extraction_completed\<close> event, not the last one, and transcribes the
  audio file of the first run.
\<close>

theorem latest_event_counterexample:
  "transcribe_input rerun_log ''job1'' = Some first_audio \<and>
   last (filter (\<lambda>l. activity l = ''audio_extraction_completed'') (getJobLogs rerun_log ''job1''))
     = second_audio \<and>
   first_audio \<noteq> second_audio \<and>
   map (audioPath \<circ> details)
     (drop (length rerun_log)
        (snd (transcribe [''temp/first.wav'', ''temp/second.wav''] (Inl ''Rate limit exceeded'')
           rerun_log ''job1''))) = [Some ''temp/first.wav'', None]"
  by (simp add: log_unfold transcribe_def logActivity_def path_join_def)

section \<open>Rejection of a moment that starts at 0\<close>

lemma check_moments_rejects:
  assumes "m \<in> set moments" "invalid_timing m"
  shows "\<exists>bad. check_moments moments = Inl (InvalidMomentTiming bad) \<and> bad \<in> set moments \<and>
           invalid_timing bad"
  using assms by (induction moments) auto

lemma zero_start_invalid:
  "in_startTime m = Some 0 \<or> in_startTime m = None \<or> in_endTime m = None \<Longrightarrow> invalid_timing m"
  by (auto simp: invalid_timing_def falsy_time_def)

text \<open>
  C9. For every moment list that contains a moment whose \<open>startTime\<close> is exactly 0, or
  whose \<open>startTime\<close> or \<open>endTime\<close> is missing, \<open>createVideoSummary\<close> fails in its input
  validation, whatever the later steps would do; when the video file exists, the error
  is "Invalid moment timing", raised for an invalid moment of the list. A moment that
  starts at 0 and ends later is rejected in this way.
\<close>

theorem zero_start_rejected:
  assumes "m \<in> set moments"
    and "in_startTime m = Some 0 \<or> in_startTime m = None \<or> in_endTime m = None"
  shows "(\<exists>e. createVideoSummary files steps videoPath moments = Inl (SummarizationFailed e)) \<and>
         (videoPath \<noteq> [] \<and> videoPath \<in> set files \<longrightarrow>
            (\<exists>bad. validateInputs files videoPath moments = Inl (InvalidMomentTiming bad) \<and>
               bad \<in> set moments \<and> invalid_timing bad \<and>
               createVideoSummary files steps videoPath moments =
                 Inl (SummarizationFailed (InvalidMomentTiming bad))))"
proof -
  have inv: "invalid_timing m" using assms(2) by (rule zero_start_invalid)
  from check_moments_rejects [OF assms(1) inv] obtain bad where
    bad: "check_moments moments = Inl (InvalidMomentTiming bad)" "bad \<in> set moments"
      "invalid_timing bad" by blast
  have ne: "moments \<noteq> []" using assms(1) by auto
  have v: "\<exists>e. validateInputs files videoPath moments = Inl e"
    using bad(1) ne by (simp add: validateInputs_def)
  then have 1: "\<exists>e. createVideoSummary files steps videoPath moments = Inl (SummarizationFailed e)"
    by (auto simp: createVideoSummary_def)
  have 2: "videoPath \<noteq> [] \<and> videoPath \<in> set files \<longrightarrow>
            (\<exists>bad. validateInputs files videoPath moments = Inl (InvalidMomentTiming bad) \<and>
               bad \<in> set moments \<and> invalid_timing bad \<and>
               createVideoSummary files steps videoPath moments =
                 Inl (SummarizationFailed (InvalidMomentTiming bad)))"
    using bad ne by (auto simp: validateInputs_def createVideoSummary_def)
  show ?thesis using 1 2 by blast
qed

theorem zero_start_rejected_witness:
  "createVideoSummary [''temp/v.mp4''] (Inr ''summary_job1.mp4'') ''temp/v.mp4''
     [later_moment, opening_moment] =
   Inl (SummarizationFailed (InvalidMomentTiming opening_moment))"
proof -
  have a: "opening_moment \<in> set [later_moment, opening_moment]" by simp
  have b: "in_startTime opening_moment = Some 0 \<or> in_startTime opening_moment = None \<or>
      in_endTime opening_moment = None" by (simp add: opening_moment_def)
  have c: "''temp/v.mp4'' \<noteq> [] \<and> ''temp/v.mp4'' \<in> set [''temp/v.mp4'']" by simp
  from zero_start_rejected [OF a b, of "[''temp/v.mp4'']" "Inr ''summary_job1.mp4''" "''temp/v.mp4''"] c
  obtain bad where bad: "bad \<in> set [later_moment, opening_moment]" "invalid_timing bad"
    "createVideoSummary [''temp/v.mp4''] (Inr ''summary_job1.mp4'') ''temp/v.mp4''
       [later_moment, opening_moment] = Inl (SummarizationFailed (InvalidMomentTiming bad))"
    by blast
  have "\<not> invalid_timing later_moment"
    by (simp add: invalid_timing_def falsy_time_def later_moment_def)
  with bad(1,2) have "bad = opening_moment" by auto
  with bad(3) show ?thesis by simp
qed

section \<open>Events logged by the summary stages\<close>

text \<open>
  C4. The quick-summary stage breaks the claim: when clip extraction fails for a job that
  passed the prerequisite check, the stage answers with status 500 and leaves the log as
  it was, with no \<open>*_failed\<close> event. On the same input the create-summary stage appends
  its \<open>video_summarization_failed\<close> event.
\<close>

theorem quick_summary_failure_not_logged:
  "quick_summary [''temp/proc-video.mp4''] (Inl ''Segment extraction failed'') ready_log ''job1''
     = (Error 500 ''Quick summary failed'', ready_log) \<and>
   fst (create_summary [''temp/proc-video.mp4''] (Inl ''Segment extraction failed'') ready_log
      ''job1'') = Error 500 ''Video summarization failed'' \<and>
   map activity (snd (create_summary [''temp/proc-video.mp4''] (Inl ''Segment extraction failed'')
      ready_log ''job1''))
     = map activity ready_log @ [''video_summarization_started'', ''video_summarization_failed'']"
  by (simp add: quick_summary_def create_summary_def log_unfold createQuickSummary_def
      createVideoSummary_def validateInputs_def path_join_def invalid_timing_def
      falsy_time_def logActivity_def Let_def)

section \<open>Repeated cleanup of a job\<close>

text \<open>
  C5. The second of two cleanups of a job succeeds, and reports 0 deleted files for the
  thumbnails and for the outputs; for the segments it reports no count at all: the result
  object of \<open>cleanupSegments\<close> for a missing directory has no \<open>deletedFiles\<close> property.
\<close>

theorem second_cleanup_reports_no_segment_count:
  "deletedFiles (res_segments (fst (cleanupJob job_files ''job1''))) = Some 2 \<and>
   jc_success (fst (cleanupJob (snd (cleanupJob job_files ''job1'')) ''job1'')) \<and>
   cr_success (res_segments (fst (cleanupJob (snd (cleanupJob job_files ''job1'')) ''job1''))) \<and>
   deletedFiles (res_segments (fst (cleanupJob (snd (cleanupJob job_files ''job1'')) ''job1'')))
     = None \<and>
   deletedFiles (res_thumbnails (fst (cleanupJob (snd (cleanupJob job_files ''job1'')) ''job1'')))
     = Some 0 \<and>
   deletedFiles (res_output (fst (cleanupJob (snd (cleanupJob job_files ''job1'')) ''job1'')))
     = Some 0"
  by (simp add: cleanupJob_def cleanupSegments_def cleanupThumbnails_def cleanupOutput_def
      job_files_def)

section \<open>Composition statistics\<close>

lemma foldl_durations:
  "foldl (\<lambda>sum seg. sum + clip_duration seg) a segs = a + sum_list (map clip_duration segs)"
  by (induction segs arbitrary: a) simp_all

lemma round2_close: "\<bar>round2 x - x\<bar> \<le> 1 / 200"
proof -
  define y where "y = x * 100"
  have 1: "of_int \<lfloor>y + 1 / 2\<rfloor> \<le> y + 1 / 2" by (rule of_int_floor_le)
  have 2: "y + 1 / 2 < of_int \<lfloor>y + 1 / 2\<rfloor> + 1" by linarith
  have "\<bar>of_int \<lfloor>y + 1 / 2\<rfloor> - y\<bar> \<le> 1 / 2" using 1 2 by linarith
  then have "\<bar>of_int \<lfloor>y + 1 / 2\<rfloor> / 100 - y / 100\<bar> \<le> 1 / 200"
    by (simp add: abs_if split: if_splits)
  then show ?thesis by (simp add: round2_def Math_round_def y_def)
qed

lemma round2_hundredths: "\<exists>k::int. round2 x * 100 = of_int k"
  by (simp add: round2_def)

lemma round2_negative: "x < - (1 / 200) \<Longrightarrow> round2 x \<le> - (1 / 100)"
proof -
  assume "x < - (1 / 200)"
  then have "x * 100 + 1 / 2 < 0" by simp
  then have "\<lfloor>x * 100 + 1 / 2\<rfloor> \<le> - 1" by linarith
  then have "(of_int \<lfloor>x * 100 + 1 / 2\<rfloor> :: rat) \<le> - 1" by (metis of_int_le_iff of_int_minus of_int_1)
  then show ?thesis by (simp add: round2_def Math_round_def)
qed

lemma stats_ratio:
  assumes "sum_list (map clip_duration segs) > 0"
  shows "stats_compressionRatio (getCompositionStats segs fm) =
           Some (round2 (spec_ratio (sum_list (map clip_duration segs)) (md_duration fm)))"
  using assms by (simp add: getCompositionStats_def foldl_durations spec_ratio_def Let_def)

lemma ratio_60: "round2 (spec_ratio 100 40) = 60"
proof -
  have "\<lfloor>12001 / 2 :: rat\<rfloor> = 6000" by (rule floor_unique) simp_all
  then show ?thesis by (simp add: round2_def spec_ratio_def Math_round_def)
qed

lemma ratio_m20: "round2 (spec_ratio 100 120) = - 20"
proof -
  have "\<lfloor>- (3999 / 2) :: rat\<rfloor> = - 2000" by (rule floor_unique) simp_all
  then show ?thesis by (simp add: round2_def spec_ratio_def Math_round_def)
qed

text \<open>
  C7. For every clip list with positive total duration and every final duration, the
  \<open>compressionRatio\<close> of the composition statistics is
  \<open>(originalDuration - finalDuration) / originalDuration * 100\<close> rounded to two decimals: it
  is a whole number of hundredths within 0.005 of that value. It is not clamped: a value
  below -0.005 gives a negative ratio. A total of 100 with a final duration of 40 gives
  60, and with a final duration of 120 gives -20.
\<close>

theorem compression_ratio_rounded:
  assumes "sum_list (map clip_duration segs) > 0"
  shows "stats_compressionRatio (getCompositionStats segs fm) =
           Some (round2 (spec_ratio (sum_list (map clip_duration segs)) (md_duration fm))) \<and>
         \<bar>round2 (spec_ratio (sum_list (map clip_duration segs)) (md_duration fm))
            - spec_ratio (sum_list (map clip_duration segs)) (md_duration fm)\<bar> \<le> 1 / 200 \<and>
         (\<exists>k::int. round2 (spec_ratio (sum_list (map clip_duration segs)) (md_duration fm)) * 100
            = of_int k) \<and>
         (spec_ratio (sum_list (map clip_duration segs)) (md_duration fm) < - (1 / 200) \<longrightarrow>
            round2 (spec_ratio (sum_list (map clip_duration segs)) (md_duration fm)) < 0) \<and>
         (sum_list (map clip_duration segs) = 100 \<and> md_duration fm = 40 \<longrightarrow>
            stats_compressionRatio (getCompositionStats segs fm) = Some 60) \<and>
         (sum_list (map clip_duration segs) = 100 \<and> md_duration fm = 120 \<longrightarrow>
            stats_compressionRatio (getCompositionStats segs fm) = Some (- 20))"
proof (intro conjI impI)
  show "stats_compressionRatio (getCompositionStats segs fm) =
           Some (round2 (spec_ratio (sum_list (map clip_duration segs)) (md_duration fm)))"
    by (rule stats_ratio [OF assms])
  show "\<bar>round2 (spec_ratio (sum_list (map clip_duration segs)) (md_duration fm))
            - spec_ratio (sum_list (map clip_duration segs)) (md_duration fm)\<bar> \<le> 1 / 200"
    by (rule round2_close)
  show "\<exists>k::int. round2 (spec_ratio (sum_list (map clip_duration segs)) (md_duration fm)) * 100
            = of_int k"
    by (rule round2_hundredths)
next
  assume "spec_ratio (sum_list (map clip_duration segs)) (md_duration fm) < - (1 / 200)"
  from round2_negative [OF this]
  show "round2 (spec_ratio (sum_list (map clip_duration segs)) (md_duration fm)) < 0" by simp
next
  assume "sum_list (map clip_duration segs) = 100 \<and> md_duration fm = 40"
  then show "stats_compressionRatio (getCompositionStats segs fm) = Some 60"
    using stats_ratio [OF assms, of fm] by (simp add: ratio_60)
next
  assume "sum_list (map clip_duration segs) = 100 \<and> md_duration fm = 120"
  then show "stats_compressionRatio (getCompositionStats segs fm) = Some (- 20)"
    using stats_ratio [OF assms, of fm] by (simp add: ratio_m20)
qed

theorem compression_ratio_rounded_witness:
  "stats_compressionRatio (getCompositionStats two_clips \<lparr>md_duration = 40, bitRate = 800000\<rparr>)
     = Some 60 \<and>
   stats_compressionRatio (getCompositionStats two_clips \<lparr>md_duration = 120, bitRate = 800000\<rparr>)
     = Some (- 20) \<and>
   stats_compressionRatio (getCompositionStats two_clips \<lparr>md_duration = 200 / 3, bitRate = 800000\<rparr>)
     = Some (3333 / 100)"
proof -
  have s: "sum_list (map clip_duration two_clips) = 100" by (simp add: two_clips_def)
  then have p: "sum_list (map clip_duration two_clips) > 0" by simp
  note t = compression_ratio_rounded [OF p]
  have "sum_list (map clip_duration two_clips) = 100 \<and>
      md_duration \<lparr>md_duration = 40, bitRate = 800000\<rparr> = 40 \<longrightarrow>
      stats_compressionRatio (getCompositionStats two_clips \<lparr>md_duration = 40, bitRate = 800000\<rparr>)
        = Some 60"
    using t [of "\<lparr>md_duration = 40, bitRate = 800000\<rparr>"] by blast
  then have a: "stats_compressionRatio
      (getCompositionStats two_clips \<lparr>md_duration = 40, bitRate = 800000\<rparr>) = Some 60"
    using s by simp
  have "sum_list (map clip_duration two_clips) = 100 \<and>
      md_duration \<lparr>md_duration = 120, bitRate = 800000\<rparr> = 120 \<longrightarrow>
      stats_compressionRatio (getCompositionStats two_clips \<lparr>md_duration = 120, bitRate = 800000\<rparr>)
        = Some (- 20)"
    using t [of "\<lparr>md_duration = 120, bitRate = 800000\<rparr>"] by blast
  then have b: "stats_compressionRatio
      (getCompositionStats two_clips \<lparr>md_duration = 120, bitRate = 800000\<rparr>) = Some (- 20)"
    using s by simp
  have "\<lfloor>20003 / 6 :: rat\<rfloor> = 3333" by (rule floor_unique) simp_all
  then have r: "round2 (spec_ratio 100 (200 / 3)) = 3333 / 100"
    by (simp add: round2_def spec_ratio_def Math_round_def)
  have "stats_compressionRatio
      (getCompositionStats two_clips \<lparr>md_duration = 200 / 3, bitRate = 800000\<rparr>) =
      Some (round2 (spec_ratio (sum_list (map clip_duration two_clips))
        (md_duration \<lparr>md_duration = 200 / 3, bitRate = 800000\<rparr>)))"
    using t [of "\<lparr>md_duration = 200 / 3, bitRate = 800000\<rparr>"] by blast
  then have c: "stats_compressionRatio
      (getCompositionStats two_clips \<lparr>md_duration = 200 / 3, bitRate = 800000\<rparr>) =
      Some (3333 / 100)"
    using s r by simp
  show ?thesis using a b c by blast
qed

section \<open>Timestamp correction of detected moments\<close>

lemma validate_moment_spec:
  "validate_moment vd m = (spec_in_range vd (spec_corrected m), spec_corrected m)"
  by (auto simp: validate_moment_def spec_in_range_def spec_corrected_def
      spec_corrected_time_def Let_def)

lemma validated_moments_spec:
  "validated_moments vd ms = filter (spec_in_range vd) (map spec_corrected ms)"
  unfolding validated_moments_def
  by (induction ms) (simp_all add: validate_moment_spec)

lemma parse_keyMoments:
  assumes "extract_json r = Some js" "JSON_parse js = Some a" "keyMoments a = Some ms" "ms \<noteq> []"
  shows "keyMoments (analysis (parseGeminiResponse JSON_parse r t)) =
           Some (filter (spec_in_range (videoDuration t a)) (map spec_corrected ms))"
  using assms by (simp add: parseGeminiResponse_def Let_def validated_moments_spec)

text \<open>
  C6. When the detector's response parses and lists at least one moment, the moments
  that \<open>parseGeminiResponse\<close> keeps are obtained by first correcting every moment (a
  \<open>startTime\<close> or \<open>endTime\<close> strictly between 1 and 10 is multiplied by 60) and then
  discarding the corrected moments that fail \<open>0 \<le> startTime < endTime \<le> videoDuration\<close>.
  A moment reported as 1.5 to 3.2 is checked, and kept, as 90 to 192.
\<close>

theorem timestamps_corrected_then_checked:
  assumes "extract_json r = Some js" "JSON_parse js = Some a" "keyMoments a = Some ms" "ms \<noteq> []"
  shows "keyMoments (analysis (parseGeminiResponse JSON_parse r t)) =
           Some (filter (spec_in_range (videoDuration t a)) (map spec_corrected ms)) \<and>
         (startTime m = 3 / 2 \<and> endTime m = 16 / 5 \<longrightarrow>
            validate_moment vd m = (192 \<le> vd, m\<lparr>startTime := 90, endTime := 192\<rparr>))"
proof -
  have "startTime m = 3 / 2 \<and> endTime m = 16 / 5 \<longrightarrow>
      validate_moment vd m = (192 \<le> vd, m\<lparr>startTime := 90, endTime := 192\<rparr>)"
  proof
    assume h: "startTime m = 3 / 2 \<and> endTime m = 16 / 5"
    then have s: "startTime m = 3 / 2" and e: "endTime m = 16 / 5" by blast+
    show "validate_moment vd m = (192 \<le> vd, m\<lparr>startTime := 90, endTime := 192\<rparr>)"
      by (simp add: validate_moment_def Let_def s e)
  qed
  moreover have "keyMoments (analysis (parseGeminiResponse JSON_parse r t)) =
      Some (filter (spec_in_range (videoDuration t a)) (map spec_corrected ms))"
    using assms by (rule parse_keyMoments [where JSON_parse = JSON_parse])
  ultimately show ?thesis by blast
qed

theorem timestamps_corrected_then_checked_witness:
  "keyMoments (analysis (parseGeminiResponse (\<lambda>s. Some detector_analysis)
      ''Here is the analysis: {...} Done.''
      \<lparr>tr_text = None, segments = None, duration = Some 300, totalDuration = None\<rparr>)) =
     Some [minutes_moment\<lparr>startTime := 90, endTime := 192\<rparr>] \<and>
   validate_moment 300 minutes_moment = (True, minutes_moment\<lparr>startTime := 90, endTime := 192\<rparr>)"
proof -
  let ?t = "\<lparr>tr_text = None, segments = None, duration = Some 300, totalDuration = None\<rparr>"
  have a: "extract_json ''Here is the analysis: {...} Done.'' = Some ''{...}''"
    by (simp add: extract_json_def)
  have b: "(\<lambda>s. Some detector_analysis) ''{...}'' = Some detector_analysis" by simp
  have c: "keyMoments detector_analysis = Some [minutes_moment, late_moment]"
    by (simp add: detector_analysis_def)
  have d: "[minutes_moment, late_moment] \<noteq> []" by simp
  have e: "startTime minutes_moment = 3 / 2 \<and> endTime minutes_moment = 16 / 5"
    by (simp add: minutes_moment_def)
  note t = timestamps_corrected_then_checked
    [where JSON_parse = "\<lambda>s. Some detector_analysis" and t = ?t and m = minutes_moment
       and vd = 300, OF a b c d]
  have v: "videoDuration ?t detector_analysis = 300"
    by (simp add: videoDuration_def num_or_def)
  have f: "filter (spec_in_range 300) (map spec_corrected [minutes_moment, late_moment]) =
      [minutes_moment\<lparr>startTime := 90, endTime := 192\<rparr>]"
    by (simp add: spec_in_range_def spec_corrected_def spec_corrected_time_def
        minutes_moment_def late_moment_def)
  have 1: "keyMoments (analysis (parseGeminiResponse (\<lambda>s. Some detector_analysis)
      ''Here is the analysis: {...} Done.'' ?t)) =
     Some [minutes_moment\<lparr>startTime := 90, endTime := 192\<rparr>]"
    using t v f by simp
  have 2: "validate_moment 300 minutes_moment =
      (True, minutes_moment\<lparr>startTime := 90, endTime := 192\<rparr>)"
    using t e by simp
  show ?thesis using 1 2 by blast
qed

section \<open>The fallback for an unparsable response\<close>

lemma generateMomentTitle_nonempty: "generateMomentTitle segs a b \<noteq> []"
  by (simp add: generateMomentTitle_def Let_def)

lemma fallback_step_inv:
  assumes "fst st = [] \<longrightarrow> fst (snd st) = 0" "list_all schema_ok (fst st)"
  shows "(fst (fallback_step segs dur st s) = [] \<longrightarrow> fst (snd (fallback_step segs dur st s)) = 0)
       \<and> list_all schema_ok (fst (fallback_step segs dur st s))"
  using assms
  by (cases st) (auto simp: fallback_step_def Let_def schema_ok_def generateMomentTitle_nonempty)

lemma fallback_loop_inv:
  assumes "fst st = [] \<longrightarrow> fst (snd st) = 0" "list_all schema_ok (fst st)"
  shows "(fst (foldl (fallback_step segs dur) st ss) = [] \<longrightarrow>
            fst (snd (foldl (fallback_step segs dur) st ss)) = 0)
       \<and> list_all schema_ok (fst (foldl (fallback_step segs dur) st ss))"
  using assms
proof (induction ss arbitrary: st)
  case Nil
  then show ?case by simp
next
  case (Cons s ss)
  have "(fst (fallback_step segs dur st s) = [] \<longrightarrow> fst (snd (fallback_step segs dur st s)) = 0)
       \<and> list_all schema_ok (fst (fallback_step segs dur st s))"
    by (rule fallback_step_inv) (use Cons.prems in auto)
  then show ?case using Cons.IH [of "fallback_step segs dur st s"] by simp
qed

lemma final_moment_ok: "schema_ok (final_moment segs dur c)"
  by (simp add: final_moment_def Let_def schema_ok_def generateMomentTitle_nonempty)

lemma equal_split_ok: "i < 3 \<Longrightarrow> schema_ok (equal_split_moment segs dur i)"
  by (auto simp: equal_split_moment_def Let_def schema_ok_def generateMomentTitle_nonempty
      phase_number_def)

lemma fallback_moments_schema: "list_all schema_ok (fallback_moments t)"
proof -
  let ?segs = "case segments t of Some ss \<Rightarrow> ss | None \<Rightarrow> []"
  let ?dur = "num_or (duration t) 0"
  have "list_all schema_ok (fst (foldl (fallback_step ?segs ?dur) ([], 0, 0) ?segs))"
    using fallback_loop_inv [of "([], 0, 0)" ?segs ?dur ?segs] by simp
  then show ?thesis
    by (simp add: fallback_moments_def Let_def final_moment_ok equal_split_ok)
qed

lemma fallback_moments_nonempty:
  assumes "duration t = Some d" "d > 10"
  shows "fallback_moments t \<noteq> []"
proof -
  let ?segs = "case segments t of Some ss \<Rightarrow> ss | None \<Rightarrow> []"
  have dur: "num_or (duration t) 0 = d" using assms by (simp add: num_or_def)
  have "fst (foldl (fallback_step ?segs d) ([], 0, 0) ?segs) = [] \<longrightarrow>
        fst (snd (foldl (fallback_step ?segs d) ([], 0, 0) ?segs)) = 0"
    using fallback_loop_inv [of "([], 0, 0)" ?segs d ?segs] by simp
  then show ?thesis using assms(2)
    by (auto simp: fallback_moments_def Let_def dur)
qed

lemma fallback_moments_three:
  assumes "duration t = Some d" "d > 60"
  shows "length (fallback_moments t) \<ge> 3"
proof -
  have dur: "num_or (duration t) 0 = d" using assms by (simp add: num_or_def)
  show ?thesis using assms(2) by (auto simp: fallback_moments_def Let_def dur)
qed

text \<open>
  On a processed transcription the fallback reads neither segments nor a duration, and
  returns no moment, however long the recording is.
\<close>

lemma fallback_on_processed_transcription:
  "fallback_moments (processTranscriptionForAnalysis t) = []"
  by (simp add: fallback_moments_def processTranscriptionForAnalysis_def num_or_def)

lemma parse_fault_falls_back:
  assumes "extract_json r = None \<or>
     (\<exists>js. extract_json r = Some js \<and>
        (JSON_parse js = None \<or>
         (\<exists>a. JSON_parse js = Some a \<and> (keyMoments a = None \<or> keyMoments a = Some []))))"
  shows "parseGeminiResponse JSON_parse r t = createLiberalFallback t"
  using assms by (auto simp: parseGeminiResponse_def)

text \<open>
  C3 (as amended). Whenever the detector's response holds no JSON object, or
  \<open>JSON.parse\<close> fails on it, or the parsed object has no moment, \<open>parseGeminiResponse\<close>
  returns the result of the heuristic fallback and raises nothing. Every moment of the
  fallback has all its fields filled (category \<open>workflow_phase\<close>, importance 5, 6 or 7).
  The fallback's moment list is non-empty whenever the transcription carries a
  \<open>duration\<close> above 10 seconds, and has at least three moments when it is above 60.
\<close>

theorem parse_fault_uses_fallback:
  "((extract_json r = None \<or>
     (\<exists>js. extract_json r = Some js \<and>
        (JSON_parse js = None \<or>
         (\<exists>a. JSON_parse js = Some a \<and> (keyMoments a = None \<or> keyMoments a = Some []))))) \<longrightarrow>
      parseGeminiResponse JSON_parse r t = createLiberalFallback t) \<and>
   success (createLiberalFallback t) \<and>
   provider (createLiberalFallback t) = ''liberal-fallback'' \<and>
   keyMoments (analysis (createLiberalFallback t)) = Some (fallback_moments t) \<and>
   list_all schema_ok (fallback_moments t) \<and>
   (\<forall>d. duration t = Some d \<and> d > 10 \<longrightarrow> fallback_moments t \<noteq> []) \<and>
   (\<forall>d. duration t = Some d \<and> d > 60 \<longrightarrow> length (fallback_moments t) \<ge> 3)"
proof (intro conjI allI impI)
  assume "extract_json r = None \<or>
     (\<exists>js. extract_json r = Some js \<and>
        (JSON_parse js = None \<or>
         (\<exists>a. JSON_parse js = Some a \<and> (keyMoments a = None \<or> keyMoments a = Some []))))"
  then show "parseGeminiResponse JSON_parse r t = createLiberalFallback t"
    by (rule parse_fault_falls_back)
next
  show "success (createLiberalFallback t)" by (simp add: createLiberalFallback_def)
  show "provider (createLiberalFallback t) = ''liberal-fallback''"
    by (simp add: createLiberalFallback_def)
  show "keyMoments (analysis (createLiberalFallback t)) = Some (fallback_moments t)"
    by (simp add: createLiberalFallback_def)
  show "list_all schema_ok (fallback_moments t)" by (rule fallback_moments_schema)
next
  fix d assume "duration t = Some d \<and> d > 10"
  then show "fallback_moments t \<noteq> []" using fallback_moments_nonempty by blast
next
  fix d assume "duration t = Some d \<and> d > 60"
  then show "length (fallback_moments t) \<ge> 3" using fallback_moments_three by blast
qed

lemmas fallback_unfold =
  fallback_moments_def fallback_step_def hasTopicIndicator_def topicIndicators_def
  toLowerCase_def num_or_def generateMomentTitle_def final_moment_def Math_floor_def

theorem parse_fault_uses_fallback_witness:
  "parseGeminiResponse (\<lambda>s. None) ''Sorry, no moments.'' demo_transcription =
     createLiberalFallback demo_transcription \<and>
   fallback_moments demo_transcription \<noteq> [] \<and>
   map title (fallback_moments demo_transcription) = [''Workflow Activity'', ''Email Check''] \<and>
   map startTime (fallback_moments demo_transcription) = [0, 8] \<and>
   map endTime (fallback_moments demo_transcription) = [8, 40]"
proof -
  have a: "extract_json ''Sorry, no moments.'' = None" by (simp add: extract_json_def)
  have b: "duration demo_transcription = Some 40 \<and> (40::rat) > 10"
    by (simp add: demo_transcription_def)
  note t = parse_fault_uses_fallback
    [where JSON_parse = "\<lambda>s. None" and r = "''Sorry, no moments.''" and t = demo_transcription]
  have 1: "parseGeminiResponse (\<lambda>s. None) ''Sorry, no moments.'' demo_transcription =
     createLiberalFallback demo_transcription" using t a by blast
  have 2: "fallback_moments demo_transcription \<noteq> []" using t b by blast
  have 3: "fallback_moments demo_transcription =
     [\<lparr>title = ''Workflow Activity'', description = ''Workflow segment: workflow activity'',
       startTime = 0, endTime = 8, importance = 6, category = ''workflow_phase'',
       reason = ''Natural workflow transition point identified'',
       workflowContext = ''Part of continuous user workflow''\<rparr>,
      \<lparr>title = ''Email Check'', description = ''Final workflow segment: email check'',
       startTime = 8, endTime = 40, importance = 6, category = ''workflow_phase'',
       reason = ''Final workflow segment'',
       workflowContext = ''Conclusion of user workflow''\<rparr>]"
    by (simp add: fallback_unfold demo_transcription_def)
  show ?thesis using 1 2 unfolding 3 by simp
qed

text \<open>
  C3 as stated fails for a short recording: with a transcript of 8 seconds the fallback
  returns an empty moment list.
\<close>

theorem short_transcript_counterexample:
  "tr_text short_transcription = Some ''hello world'' \<and>
   parseGeminiResponse (\<lambda>s. None) ''Sorry, no moments.'' short_transcription =
     createLiberalFallback short_transcription \<and>
   keyMoments (analysis (createLiberalFallback short_transcription)) = Some []"
  by (simp add: parseGeminiResponse_def extract_json_def createLiberalFallback_def
      fallback_unfold short_transcription_def)

section \<open>The temp phase of the cleanup route\<close>

lemma temp_dir_cleanupSegments: "temp_dir (snd (cleanupSegments fs j)) = temp_dir fs"
  by (cases "segment_dirs fs j") (simp_all add: cleanupSegments_def split: prod.splits)

lemma temp_dir_cleanupThumbnails: "temp_dir (snd (cleanupThumbnails fs j)) = temp_dir fs"
  by (cases "thumbnail_dirs fs j") (simp_all add: cleanupThumbnails_def split: prod.splits)

lemma temp_dir_cleanupOutput: "temp_dir (snd (cleanupOutput fs j)) = temp_dir fs"
  by (simp add: cleanupOutput_def split: prod.splits)

lemma temp_dir_cleanupJob: "temp_dir (snd (cleanupJob fs j)) = temp_dir fs"
proof -
  obtain rs fs1 where 1: "cleanupSegments fs j = (rs, fs1)" by (cases "cleanupSegments fs j")
  obtain rt fs2 where 2: "cleanupThumbnails fs1 j = (rt, fs2)"
    by (cases "cleanupThumbnails fs1 j")
  obtain ro fs3 where 3: "cleanupOutput fs2 j = (ro, fs3)" by (cases "cleanupOutput fs2 j")
  have "temp_dir fs3 = temp_dir fs"
    using temp_dir_cleanupSegments [of fs j] temp_dir_cleanupThumbnails [of fs1 j]
      temp_dir_cleanupOutput [of fs2 j] 1 2 3 by simp
  then show ?thesis by (simp add: cleanupJob_def 1 2 3)
qed

lemma temp_loop_regular:
  assumes "\<forall>e \<in> set es. of_int (mtime e) < cutoff \<longrightarrow> te_kind e = RegularFile"
  shows "temp_loop cutoff es =
           (filter (\<lambda>e. \<not> of_int (mtime e) < cutoff) es,
            length (filter (\<lambda>e. of_int (mtime e) < cutoff) es),
            sum_list (map te_size (filter (\<lambda>e. of_int (mtime e) < cutoff) es)),
            False)"
  using assms by (induction es) auto

lemma cleanupTempFiles_zero_age:
  assumes "\<forall>e \<in> set (temp_dir fs). mtime e < now \<longrightarrow> te_kind e = RegularFile"
  shows "temp_dir (snd (cleanupTempFiles fs now 0)) = filter (\<lambda>e. now \<le> mtime e) (temp_dir fs)"
    and "filesRemoved (fst (cleanupTempFiles fs now 0)) =
           Some (length (filter (\<lambda>e. mtime e < now) (temp_dir fs)))"
proof -
  have "\<forall>e \<in> set (temp_dir fs). rat_of_int (mtime e) < of_int now \<longrightarrow> te_kind e = RegularFile"
    using assms by simp
  from temp_loop_regular [OF this]
  show "temp_dir (snd (cleanupTempFiles fs now 0)) = filter (\<lambda>e. now \<le> mtime e) (temp_dir fs)"
    and "filesRemoved (fst (cleanupTempFiles fs now 0)) =
           Some (length (filter (\<lambda>e. mtime e < now) (temp_dir fs)))"
    by (simp_all add: cleanupTempFiles_def not_less)
qed

text \<open>
  C10. The cleanup route of one job calls the temp cleaner with a maximum age of 0 and
  the cleaner takes no job identifier: provided every temp entry older than the clock
  reading is a regular file, the route removes every such entry, whichever job it
  belongs to, and what is left does not depend on the job identifier. When all entries
  are older than the clock reading, the shared temp directory is empty afterwards.
\<close>

theorem job_cleanup_empties_shared_temp:
  assumes "\<forall>e \<in> set (temp_dir fs). mtime e < now \<longrightarrow> te_kind e = RegularFile"
  shows "temp_dir (fst (snd (cleanup_route fs now lg j))) =
           filter (\<lambda>e. now \<le> mtime e) (temp_dir fs) \<and>
         filesRemoved (snd (fst (cleanup_route fs now lg j))) =
           Some (length (filter (\<lambda>e. mtime e < now) (temp_dir fs))) \<and>
         temp_dir (fst (snd (cleanup_route fs now lg j))) =
           temp_dir (snd (cleanupTempFiles fs now 0)) \<and>
         ((\<forall>e \<in> set (temp_dir fs). mtime e < now) \<longrightarrow>
            temp_dir (fst (snd (cleanup_route fs now lg j))) = [] \<and>
            filesRemoved (snd (fst (cleanup_route fs now lg j))) = Some (length (temp_dir fs)))"
proof -
  obtain r fs1 where c: "cleanupJob fs j = (r, fs1)" by (cases "cleanupJob fs j")
  have t: "temp_dir fs1 = temp_dir fs" using temp_dir_cleanupJob [of fs j] c by simp
  obtain tr fs2 where d: "cleanupTempFiles fs1 now 0 = (tr, fs2)"
    by (cases "cleanupTempFiles fs1 now 0")
  have route: "cleanup_route fs now lg j =
      ((r, tr), fs2, logActivity lg j ''cleanup_completed'' no_details)"
    by (simp add: cleanup_route_def c d)
  have a: "\<forall>e \<in> set (temp_dir fs1). mtime e < now \<longrightarrow> te_kind e = RegularFile"
    using assms t by simp
  have 1: "temp_dir fs2 = filter (\<lambda>e. now \<le> mtime e) (temp_dir fs)"
    using cleanupTempFiles_zero_age(1) [OF a] d t by simp
  have 2: "filesRemoved tr = Some (length (filter (\<lambda>e. mtime e < now) (temp_dir fs)))"
    using cleanupTempFiles_zero_age(2) [OF a] d t by simp
  have 3: "(\<forall>e \<in> set (temp_dir fs). mtime e < now) \<longrightarrow>
      filter (\<lambda>e. now \<le> mtime e) (temp_dir fs) = [] \<and>
      filter (\<lambda>e. mtime e < now) (temp_dir fs) = temp_dir fs"
    by (auto simp: filter_empty_conv filter_id_conv)
  have 4: "temp_dir (snd (cleanupTempFiles fs now 0)) =
      filter (\<lambda>e. now \<le> mtime e) (temp_dir fs)"
    by (rule cleanupTempFiles_zero_age(1) [OF assms])
  show ?thesis unfolding route using 1 2 3 4 by simp
qed

theorem job_cleanup_empties_shared_temp_witness:
  "temp_dir (fst (snd (cleanup_route shared_temp 2000 [] ''job1''))) = [] \<and>
   filesRemoved (snd (fst (cleanup_route shared_temp 2000 [] ''job1''))) = Some 3"
proof -
  have a: "\<forall>e \<in> set (temp_dir shared_temp). mtime e < 2000 \<longrightarrow> te_kind e = RegularFile"
    by (simp add: shared_temp_def)
  have b: "\<forall>e \<in> set (temp_dir shared_temp). mtime e < 2000"
    by (simp add: shared_temp_def)
  have c: "length (temp_dir shared_temp) = 3" by (simp add: shared_temp_def)
  have "temp_dir (fst (snd (cleanup_route shared_temp 2000 [] ''job1''))) = [] \<and>
      filesRemoved (snd (fst (cleanup_route shared_temp 2000 [] ''job1''))) =
        Some (length (temp_dir shared_temp))"
    using job_cleanup_empties_shared_temp [OF a, of "[]" "''job1''"] b by blast
  then show ?thesis using c by simp
qed

end
